theory Spec2Isabelle
  imports Main
begin

section \<open>JavaScript strings and numbers\<close>

text \<open>
  A JavaScript string is modelled as a \<open>string\<close>, one \<open>char\<close> per code unit
  (code units below 256 only). \<^verbatim>\<open>String.prototype.trim\<close> removes white space
  and line terminators from both ends; in this range these are tab, line feed, vertical
  tab, form feed, carriage return, space and no-break space.
\<close>

definition js_whitespace :: "char \<Rightarrow> bool" where
  "js_whitespace c =
     (c \<in> set [CHR 0x09, CHR 0x0A, CHR 0x0B, CHR 0x0C, CHR 0x0D, CHR 0x20, CHR 0xA0])"

definition trim :: "string \<Rightarrow> string" where
  "trim s = rev (dropWhile js_whitespace (rev (dropWhile js_whitespace s)))"

text \<open>Splitting at line feeds (\<^verbatim>\<open>split\<close>): the empty string splits into one empty line.\<close>

fun split_newline :: "string \<Rightarrow> string list" where
  "split_newline [] = [[]]"
| "split_newline (c # cs) =
     (if c = CHR 0x0A then [] # split_newline cs
      else (case split_newline cs of
              [] \<Rightarrow> [[c]]
            | l # ls \<Rightarrow> (c # l) # ls))"

text \<open>Joining with line feeds (\<^verbatim>\<open>join\<close>): the empty array joins to the empty string.\<close>

fun join_newline :: "string list \<Rightarrow> string" where
  "join_newline [] = []"
| "join_newline [x] = x"
| "join_newline (x # y # ys) = x @ CHR 0x0A # join_newline (y # ys)"

text \<open>
  A count interpolated into a template literal is printed in decimal
  (counts are natural numbers far below the range where JavaScript switches to
  exponent notation).
\<close>

text \<open>A decimal digit; only applied to numbers below 10.\<close>

definition digit_char :: "nat \<Rightarrow> char" where
  "digit_char d = ''0123456789'' ! d"

function show_nat :: "nat \<Rightarrow> string" where
  "show_nat n = (if n < 10 then [digit_char n] else show_nat (n div 10) @ [digit_char (n mod 10)])"
  by pat_completeness auto
termination
  by (relation "measure id") auto

declare show_nat.simps [simp del]

section \<open>Request lifecycle progression (Requests page)\<close>

text \<open>
  The Requests page keeps a request's status as a JavaScript string. The function
  \<^verbatim>\<open>getNextStatus\<close> is a \<^verbatim>\<open>switch\<close> over that string with a
  \<^verbatim>\<open>default\<close> branch returning \<^verbatim>\<open>null\<close>; the model returns
  \<open>None\<close> for \<^verbatim>\<open>null\<close>.
\<close>

definition getNextStatus :: "string \<Rightarrow> string option" where
  "getNextStatus currentStatus =
     (if currentStatus = ''pending'' then Some ''approved''
      else if currentStatus = ''approved'' then Some ''completed''
      else if currentStatus = ''rejected'' then Some ''approved''
      else None)"

text \<open>
  The transition graph in the words of the specification:
  pending to approved, approved to completed, rejected to approved, and nothing else.
\<close>

definition spec_progression :: "(string \<times> string) list" where
  "spec_progression =
     [(''pending'', ''approved''), (''approved'', ''completed''), (''rejected'', ''approved'')]"

text \<open>
  C2. \<^verbatim>\<open>getNextStatus\<close> maps pending to approved, approved to completed and
  rejected to approved; completed and every other input are mapped to \<^verbatim>\<open>null\<close>.
  Its graph is exactly the progression graph of the specification, so nothing leads out
  of completed.
\<close>

theorem getNextStatus_transition_graph:
  "getNextStatus ''pending'' = Some ''approved''
   \<and> getNextStatus ''approved'' = Some ''completed''
   \<and> getNextStatus ''rejected'' = Some ''approved''
   \<and> getNextStatus ''completed'' = None
   \<and> (s \<noteq> ''pending'' \<and> s \<noteq> ''approved'' \<and> s \<noteq> ''rejected'' \<longrightarrow> getNextStatus s = None)
   \<and> (getNextStatus s = Some t \<longleftrightarrow> (s, t) \<in> set spec_progression)"
  by (auto simp: getNextStatus_def spec_progression_def)

theorem getNextStatus_transition_graph_witness:
  "''archived'' \<noteq> ''pending'' \<and> ''archived'' \<noteq> ''approved'' \<and> ''archived'' \<noteq> ''rejected''
   \<and> getNextStatus ''archived'' = None
   \<and> (getNextStatus ''rejected'' = Some ''approved''
        \<longleftrightarrow> (''rejected'', ''approved'') \<in> set spec_progression)
   \<and> (''rejected'', ''approved'') \<in> set spec_progression"
  using getNextStatus_transition_graph [of "''archived''" "''approved''"]
        getNextStatus_transition_graph [of "''rejected''" "''approved''"]
  by (simp add: spec_progression_def)


section \<open>Game detail page: the availability panel\<close>

text \<open>
  The request-status query returns an object with three booleans and the status of the
  user's own request (a string, or \<^verbatim>\<open>null\<close>). The page holds it in
  \<^verbatim>\<open>gameStatus\<close>, which is \<^verbatim>\<open>null\<close> until
  \<^verbatim>\<open>checkGameStatus\<close> has received an OK response.
\<close>

record game_status =
  is_available :: bool
  can_request :: bool
  user_has_request :: bool
  user_request_status :: "string option"

text \<open>
  \<^verbatim>\<open>checkGameStatus\<close>: the state is replaced only by the body of an OK
  response; a non-OK response and a failed fetch leave it as it is.
\<close>

datatype status_fetch = StatusFetchFailed | StatusResponse bool game_status

definition checkGameStatus :: "status_fetch \<Rightarrow> game_status option \<Rightarrow> game_status option" where
  "checkGameStatus r gameStatus =
     (case r of
        StatusFetchFailed \<Rightarrow> gameStatus
      | StatusResponse ok status \<Rightarrow> (if ok then Some status else gameStatus))"

text \<open>
  What the panel shows below its heading: the indicator, the button (with its
  \<^verbatim>\<open>disabled\<close> attribute), the badge (with its colour classes and its text), or
  nothing.
\<close>

datatype availability_view =
    AvailableIndicator
  | CreateRequestButton bool
  | RequestBadge string string
  | NothingShown

definition badge_classes :: "string option \<Rightarrow> string" where
  "badge_classes st =
     (if st = Some ''pending'' then ''bg-yellow-500/10 border-yellow-500/30 text-yellow-400''
      else if st = Some ''approved'' then ''bg-purple-500/10 border-purple-500/30 text-purple-400''
      else if st = Some ''completed'' then ''bg-green-500/10 border-green-500/30 text-green-400''
      else if st = Some ''rejected'' then ''bg-red-500/10 border-red-500/30 text-red-400''
      else ''bg-gray-500/10 border-gray-500/30 text-gray-400'')"

definition badge_label :: "string option \<Rightarrow> string" where
  "badge_label st =
     (if st = Some ''pending'' then ''Pending''
      else if st = Some ''approved'' then ''Approved''
      else if st = Some ''completed'' then ''Available''
      else if st = Some ''rejected'' then ''Rejected''
      else ''Unknown'')"

text \<open>
  The conditional chain of the panel. \<^verbatim>\<open>gameStatus?.field\<close> is
  \<^verbatim>\<open>undefined\<close>, hence falsy, while \<^verbatim>\<open>gameStatus\<close> is
  \<^verbatim>\<open>null\<close>. The second argument says whether a user is logged in
  (the button is \<^verbatim>\<open>disabled\<close> without one).
\<close>

definition availability_panel :: "game_status option \<Rightarrow> bool \<Rightarrow> availability_view" where
  "availability_panel gameStatus user =
     (case gameStatus of
        None \<Rightarrow> NothingShown
      | Some g \<Rightarrow>
          if is_available g then AvailableIndicator
          else if can_request g then CreateRequestButton (\<not> user)
          else if user_has_request g then
            RequestBadge (badge_classes (user_request_status g))
                         (''Request: '' @ badge_label (user_request_status g))
          else NothingShown)"

definition is_button :: "availability_view \<Rightarrow> bool" where
  "is_button v = (case v of CreateRequestButton _ \<Rightarrow> True | _ \<Rightarrow> False)"

definition is_badge :: "availability_view \<Rightarrow> bool" where
  "is_badge v = (case v of RequestBadge _ _ \<Rightarrow> True | _ \<Rightarrow> False)"

text \<open>
  C7. An OK answer of the status query becomes the \<^verbatim>\<open>gameStatus\<close> object, and
  for every \<^verbatim>\<open>gameStatus\<close> object the panel is in exactly one state, chosen
  with fixed priority: the Available indicator iff \<open>is_available\<close>; otherwise the
  Create-request button iff \<open>can_request\<close>; otherwise the badge iff
  \<open>user_has_request\<close>, its text following \<open>user_request_status\<close>
  (Pending, Approved, Available for completed, Rejected, Unknown for anything else);
  otherwise nothing.
\<close>

theorem availability_panel_priority:
  "checkGameStatus (StatusResponse True g) previous = Some g
   \<and> (availability_panel (Some g) u = AvailableIndicator \<longleftrightarrow> is_available g)
   \<and> (\<not> is_available g \<longrightarrow>
        (is_button (availability_panel (Some g) u) \<longleftrightarrow> can_request g))
   \<and> (\<not> is_available g \<and> \<not> can_request g \<longrightarrow>
        (is_badge (availability_panel (Some g) u) \<longleftrightarrow> user_has_request g))
   \<and> (\<not> is_available g \<and> \<not> can_request g \<and> user_has_request g \<longrightarrow>
        availability_panel (Some g) u =
          RequestBadge (badge_classes (user_request_status g))
            (''Request: '' @
              (case user_request_status g of
                 None \<Rightarrow> ''Unknown''
               | Some st \<Rightarrow>
                   if st = ''pending'' then ''Pending''
                   else if st = ''approved'' then ''Approved''
                   else if st = ''completed'' then ''Available''
                   else if st = ''rejected'' then ''Rejected''
                   else ''Unknown'')))
   \<and> (\<not> is_available g \<and> \<not> can_request g \<and> \<not> user_has_request g \<longrightarrow>
        availability_panel (Some g) u = NothingShown)
   \<and> (is_available g \<longrightarrow>
        \<not> is_button (availability_panel (Some g) u) \<and> \<not> is_badge (availability_panel (Some g) u))
   \<and> (can_request g \<longrightarrow> \<not> is_badge (availability_panel (Some g) u))"
  by (auto simp: availability_panel_def is_button_def is_badge_def badge_label_def
           checkGameStatus_def split: option.splits)

theorem availability_panel_priority_witness:
  "\<not> is_available \<lparr>is_available = False, can_request = False, user_has_request = True,
                     user_request_status = Some ''completed''\<rparr>
   \<and> \<not> can_request \<lparr>is_available = False, can_request = False, user_has_request = True,
                     user_request_status = Some ''completed''\<rparr>
   \<and> user_has_request \<lparr>is_available = False, can_request = False, user_has_request = True,
                     user_request_status = Some ''completed''\<rparr>
   \<and> availability_panel
         (Some \<lparr>is_available = False, can_request = False, user_has_request = True,
                user_request_status = Some ''completed''\<rparr>) True
       = RequestBadge ''bg-green-500/10 border-green-500/30 text-green-400'' ''Request: Available''
   \<and> is_badge (availability_panel
         (Some \<lparr>is_available = False, can_request = False, user_has_request = True,
                user_request_status = Some ''completed''\<rparr>) True)"
  using availability_panel_priority
          [of "\<lparr>is_available = False, can_request = False, user_has_request = True,
                user_request_status = Some ''completed''\<rparr>" None True]
  by (simp add: badge_classes_def is_badge_def)


section \<open>Autocomplete suggestions (api/suggestions.js)\<close>

text \<open>
  \<^verbatim>\<open>getGameSuggestions\<close> builds one GET request from the trimmed query and the
  limit and hands it to \<^verbatim>\<open>authFetch\<close>. What can happen inside the
  \<^verbatim>\<open>try\<close> block is an outcome of that call: building the URL or the fetch
  throws, or a response arrives with its \<^verbatim>\<open>ok\<close> flag, status, status text and
  a body that \<^verbatim>\<open>response.json()\<close> either parses (\<open>Some\<close>) or rejects
  (\<open>None\<close>). The server is a parameter of the model.
\<close>

record suggestions_request =
  q :: string
  limit :: nat

datatype 'a fetch_outcome =
    Threw string
  | Response bool nat string "'a list option"

text \<open>
  An \<^verbatim>\<open>async\<close> function either fulfils with a value (\<open>Inr\<close>) or rejects with an
  error (\<open>Inl\<close>). A run of the function is the list of requests it issued together
  with that result.
\<close>

type_synonym 'a promise = "string + 'a"

definition try_catch :: "'a promise \<Rightarrow> (string \<Rightarrow> 'a promise) \<Rightarrow> 'a promise" where
  "try_catch body handler = (case body of Inl e \<Rightarrow> handler e | Inr v \<Rightarrow> Inr v)"

definition suggestions_body :: "'a fetch_outcome \<Rightarrow> 'a list promise" where
  "suggestions_body r =
     (case r of
        Threw e \<Rightarrow> Inl e
      | Response ok status statusText body \<Rightarrow>
          if \<not> ok then Inl (''HTTP '' @ show_nat status @ '': '' @ statusText)
          else (case body of None \<Rightarrow> Inl ''invalid JSON'' | Some xs \<Rightarrow> Inr xs))"

definition getGameSuggestions ::
  "(suggestions_request \<Rightarrow> 'a fetch_outcome) \<Rightarrow> string option \<Rightarrow> nat option
     \<Rightarrow> suggestions_request list \<times> 'a list promise" where
  "getGameSuggestions authFetch query lim =
     (case query of
        None \<Rightarrow> ([], Inr [])
      | Some qs \<Rightarrow>
          if qs = [] \<or> length (trim qs) < 2 then ([], Inr [])
          else
            let request = \<lparr>q = trim qs, limit = (case lim of None \<Rightarrow> 10 | Some n \<Rightarrow> n)\<rparr>
            in ([request],
                try_catch (suggestions_body (authFetch request)) (\<lambda>error. Inr [])))"

lemma suggestions_never_rejects:
  "\<exists>xs. snd (getGameSuggestions authFetch query lim) = Inr xs"
  by (simp add: getGameSuggestions_def try_catch_def Let_def split: option.splits sum.splits)

lemma suggestions_short_query:
  "query = None \<or> (query = Some qs \<and> length (trim qs) < 2) \<Longrightarrow>
     getGameSuggestions authFetch query lim = ([], Inr [])"
  by (auto simp: getGameSuggestions_def split: option.splits)

lemma suggestions_fetch_threw:
  "authFetch \<lparr>q = trim qs, limit = (case lim of None \<Rightarrow> 10 | Some n \<Rightarrow> n)\<rparr> = Threw e \<Longrightarrow>
     snd (getGameSuggestions authFetch (Some qs) lim) = Inr []"
  by (simp add: getGameSuggestions_def try_catch_def suggestions_body_def Let_def)

lemma suggestions_not_ok:
  "authFetch \<lparr>q = trim qs, limit = (case lim of None \<Rightarrow> 10 | Some n \<Rightarrow> n)\<rparr>
     = Response False st txt body \<Longrightarrow>
     snd (getGameSuggestions authFetch (Some qs) lim) = Inr []"
  by (simp add: getGameSuggestions_def try_catch_def suggestions_body_def Let_def)

text \<open>
  C9. \<^verbatim>\<open>getGameSuggestions\<close> never rejects. A query that is missing or whose
  trimmed length is below 2 gives the empty list and no request is issued; a failed
  fetch and a non-OK response give the empty list.
\<close>

theorem getGameSuggestions_absorbs_errors:
  "(\<exists>xs. snd (getGameSuggestions authFetch query lim) = Inr xs)
   \<and> (query = None \<or> (query = Some qs \<and> length (trim qs) < 2) \<longrightarrow>
        getGameSuggestions authFetch query lim = ([], Inr []))
   \<and> (query = Some qs \<and>
        (\<exists>e. authFetch \<lparr>q = trim qs, limit = (case lim of None \<Rightarrow> 10 | Some n \<Rightarrow> n)\<rparr> = Threw e) \<longrightarrow>
        snd (getGameSuggestions authFetch query lim) = Inr [])
   \<and> (query = Some qs \<and>
        (\<exists>st txt body.
           authFetch \<lparr>q = trim qs, limit = (case lim of None \<Rightarrow> 10 | Some n \<Rightarrow> n)\<rparr>
             = Response False st txt body) \<longrightarrow>
        snd (getGameSuggestions authFetch query lim) = Inr [])"
  using suggestions_never_rejects [of authFetch query lim]
        suggestions_short_query [of query qs authFetch lim]
        suggestions_fetch_threw [of authFetch qs lim]
        suggestions_not_ok [of authFetch qs lim]
  by blast

theorem getGameSuggestions_absorbs_errors_witness:
  "length (trim '' a '') < 2
   \<and> getGameSuggestions (\<lambda>r. Response False 500 ''Internal Server Error'' (None :: nat list option))
         (Some '' a '') None = ([], Inr [])
   \<and> (\<lambda>r. Response False 500 ''Internal Server Error'' (None :: nat list option))
         \<lparr>q = trim ''zelda'', limit = 10\<rparr> = Response False 500 ''Internal Server Error'' None
   \<and> snd (getGameSuggestions (\<lambda>r. Response False 500 ''Internal Server Error'' (None :: nat list option))
         (Some ''zelda'') None) = Inr []"
  using getGameSuggestions_absorbs_errors
          [of "\<lambda>r. Response False 500 ''Internal Server Error'' (None :: nat list option)"
              "Some '' a ''" None "'' a ''"]
        getGameSuggestions_absorbs_errors
          [of "\<lambda>r. Response False 500 ''Internal Server Error'' (None :: nat list option)"
              "Some ''zelda''" None "''zelda''"]
  by (simp add: trim_def js_whitespace_def)

section \<open>Library page: bulk text import\<close>

text \<open>
  The bulk-import endpoint answers with counts and two lists. The counts are list
  lengths computed by the server, hence natural numbers.
\<close>

record imported_game =
  original_name :: string
  igdb_name :: string
  genres :: string

record failed_game =
  name :: string
  reason :: string

record import_result =
  total_games :: nat
  successful_imports :: nat
  failed_imports :: nat
  imported_games :: "imported_game list"
  failed_games :: "failed_game list"

text \<open>
  The state cells of the \<^verbatim>\<open>Library\<close> component and their initial values,
  and the number of progress timers (\<^verbatim>\<open>setInterval\<close>) that are running.
\<close>

record library_state =
  importStatus :: string
  importProgress :: nat
  importMessage :: string
  importResults :: "import_result option"
  importMode :: string
  textImportInput :: string
  progressIntervals :: nat

definition library_initial :: library_state where
  "library_initial =
     \<lparr>importStatus = ''idle'', importProgress = 0, importMessage = [],
      importResults = None, importMode = ''bulk'', textImportInput = [],
      progressIntervals = 0\<rparr>"

text \<open>
  \<^verbatim>\<open>importGamesFromText\<close> posts the names and either returns the parsed result
  or throws an error with a message (non-OK response, failed fetch). The server is the
  parameter \<open>api\<close>.

  \<^verbatim>\<open>handleTextImport\<close>, from the click to the state after the awaited call has
  settled. The progress timer is started inside the \<^verbatim>\<open>try\<close> block and
  touches only \<^verbatim>\<open>importProgress\<close>. It is cleared after the call has returned
  a result; when the call throws, the \<^verbatim>\<open>catch\<close> block does not clear it, and
  it keeps running.
\<close>

text \<open>One tick of a running progress timer: \<^verbatim>\<open>Math.min(prev + 10, 90)\<close>.\<close>

definition progress_tick :: "library_state \<Rightarrow> library_state" where
  "progress_tick s =
     (if progressIntervals s > 0 then s\<lparr>importProgress := min (importProgress s + 10) 90\<rparr>
      else s)"

definition parse_game_names :: "string \<Rightarrow> string list" where
  "parse_game_names text = filter (\<lambda>line. length line > 0) (map trim (split_newline text))"

definition handleTextImport ::
  "(string list \<Rightarrow> import_result promise) \<Rightarrow> library_state \<Rightarrow> library_state" where
  "handleTextImport api s =
     (if trim (textImportInput s) = [] then
        s\<lparr>importStatus := ''error'', importMessage := ''Please enter some games to import.''\<rparr>
      else
        let s1 = s\<lparr>importStatus := ''loading'', importProgress := 0,
                    importMessage := ''Creating completed requests from text input...''\<rparr>;
            gameNames = parse_game_names (textImportInput s)
        in if length gameNames = 0 then
             s1\<lparr>importStatus := ''error'', importMessage := ''No valid game names found in input.''\<rparr>
           else
             (case api gameNames of
                Inr result \<Rightarrow>
                  s1\<lparr>importProgress := 100, importResults := Some result,
                      importStatus := ''success'',
                      textImportInput := join_newline (map name (failed_games result))\<rparr>
              | Inl error_message \<Rightarrow>
                  s1\<lparr>importProgress := 0, importStatus := ''error'',
                      importMessage := ''Error during import: '' @ error_message,
                      progressIntervals := progressIntervals s + 1\<rparr>))"

text \<open>
  \<^verbatim>\<open>handleSmartImport\<close> stores the result in the same way and leaves the text
  alone; its progress timer keeps running after a failed call, too.
\<close>

definition handleSmartImport ::
  "(string list \<Rightarrow> import_result promise) \<Rightarrow> string list \<Rightarrow> library_state \<Rightarrow> library_state" where
  "handleSmartImport api gameNames s =
     (let s1 = s\<lparr>importStatus := ''loading'', importProgress := 0\<rparr>
      in case api gameNames of
           Inr result \<Rightarrow>
             s1\<lparr>importProgress := 100, importResults := Some result, importStatus := ''success''\<rparr>
         | Inl error_message \<Rightarrow>
             s1\<lparr>importProgress := 0, importStatus := ''error'',
                 importMessage := ''Error during import: '' @ error_message,
                 progressIntervals := progressIntervals s + 1\<rparr>)"



definition none_imported_text :: "nat \<Rightarrow> string" where
  "none_imported_text f =
     ''Failed to import any games. '' @ show_nat f @ '' games could not be imported.''"



definition starts_with :: "string \<Rightarrow> string \<Rightarrow> bool" where
  "starts_with p b = (take (length p) b = p)"

definition is_all_failure_message :: "string \<Rightarrow> bool" where
  "is_all_failure_message b = starts_with ''Failed to import any games'' b"









lemma none_imported_is_failure: "is_all_failure_message (none_imported_text f)"
  by (simp add: is_all_failure_message_def starts_with_def none_imported_text_def)





definition example_import_result :: import_result where
  "example_import_result =
     \<lparr>total_games = 3, successful_imports = 1, failed_imports = 2,
      imported_games =
        [\<lparr>original_name = ''Half-Life 2'', igdb_name = ''Half-Life 2'', genres = ''Shooter''\<rparr>],
      failed_games =
        [\<lparr>name = ''Not A Real Game XYZ123'', reason = ''No match found''\<rparr>,
         \<lparr>name = ''Half-Life 2'', reason = ''Already in library''\<rparr>]\<rparr>"



subsection \<open>Retrying the failed names\<close>

lemma split_newline_no_lf: "CHR 0x0A \<notin> set n \<Longrightarrow> split_newline n = [n]"
  by (induction n) auto

lemma split_newline_line:
  "CHR 0x0A \<notin> set n \<Longrightarrow> split_newline (n @ CHR 0x0A # rest) = n # split_newline rest"
  by (induction n) auto

lemma split_join_newline:
  "ns \<noteq> [] \<Longrightarrow> \<forall>n\<in>set ns. CHR 0x0A \<notin> set n \<Longrightarrow> split_newline (join_newline ns) = ns"
proof (induction ns rule: join_newline.induct)
  case 1
  then show ?case by simp
next
  case (2 x)
  then show ?case by (simp add: split_newline_no_lf)
next
  case (3 x y ys)
  then show ?case by (simp add: split_newline_line)
qed

lemma parse_join_newline:
  assumes "\<forall>n\<in>set ns. n \<noteq> [] \<and> trim n = n \<and> CHR 0x0A \<notin> set n"
  shows "parse_game_names (join_newline ns) = ns"
proof (cases "ns = []")
  case True
  then show ?thesis by (simp add: parse_game_names_def trim_def)
next
  case False
  with assms have "split_newline (join_newline ns) = ns"
    by (simp add: split_join_newline)
  moreover from assms have "map trim ns = ns"
    by (simp add: map_idI)
  moreover from assms have "filter (\<lambda>line. length line > 0) ns = ns"
    by (simp add: filter_id_conv)
  ultimately show ?thesis by (simp add: parse_game_names_def)
qed

lemma last_dropWhile_ne: "dropWhile P xs \<noteq> [] \<Longrightarrow> last (dropWhile P xs) = last xs"
  by (induction xs) (auto split: if_splits)

lemma dropWhile_hd_id: "xs \<noteq> [] \<Longrightarrow> \<not> P (hd xs) \<Longrightarrow> dropWhile P xs = xs"
  by (cases xs) auto

lemma trim_empty: "trim [] = []"
  by (simp add: trim_def)

lemma trim_idem: "trim (trim s) = trim s"
proof -
  let ?a = "dropWhile js_whitespace s"
  let ?b = "dropWhile js_whitespace (rev ?a)"
  have t: "trim s = rev ?b" by (simp add: trim_def)
  show ?thesis
  proof (cases "?b = []")
    case True
    with t have "trim s = []" by simp
    then show ?thesis by (simp add: trim_empty)
  next
    case False
    have a: "?a \<noteq> []"
    proof
      assume e: "?a = []"
      have "?b = []" unfolding e by simp
      with False show False by contradiction
    qed
    have "last ?b = last (rev ?a)" using False by (rule last_dropWhile_ne)
    also have "\<dots> = hd ?a" using a by (simp add: last_rev)
    finally have "\<not> js_whitespace (last ?b)" using a hd_dropWhile by metis
    then have "\<not> js_whitespace (hd (rev ?b))" using False by (simp add: hd_rev)
    then have "dropWhile js_whitespace (rev ?b) = rev ?b"
      using False by (intro dropWhile_hd_id) simp_all
    then have "trim (rev ?b) = rev ?b" by (simp add: trim_def)
    with t show ?thesis by simp
  qed
qed

lemma split_newline_lines: "\<forall>l\<in>set (split_newline s). CHR 0x0A \<notin> set l"
  by (induction s) (auto split: list.splits)

lemma trim_subset: "x \<in> set (trim s) \<Longrightarrow> x \<in> set s"
  by (auto simp: trim_def dest!: set_dropWhileD)

lemma parsed_names_clean:
  "\<forall>n\<in>set (parse_game_names t). n \<noteq> [] \<and> trim n = n \<and> CHR 0x0A \<notin> set n"
  using split_newline_lines [of t] trim_subset
  by (auto simp: parse_game_names_def trim_idem)

lemma resubmit_parsed_names:
  "set ns \<subseteq> set (parse_game_names t) \<Longrightarrow> parse_game_names (join_newline ns) = ns"
  using parsed_names_clean [of t] by (intro parse_join_newline) blast

lemma text_import_success:
  "importStatus (handleTextImport api s) = ''success'' \<Longrightarrow>
     \<exists>result. api (parse_game_names (textImportInput s)) = Inr result
        \<and> importResults (handleTextImport api s) = Some result
        \<and> textImportInput (handleTextImport api s)
            = join_newline (map name (failed_games result))"
  by (cases "api (parse_game_names (textImportInput s))")
     (simp_all add: handleTextImport_def Let_def split: if_splits)

text \<open>
  C5. Whenever \<^verbatim>\<open>handleTextImport\<close> ends in the \<^verbatim>\<open>success\<close> status, the
  import call returned a result and the text input has become exactly the names of that
  result's \<open>failed_games\<close>, joined by line feeds in result order. Pressing the
  import button again therefore submits exactly those names: a list of names that are
  non-empty, trimmed and free of line feeds is read back from its joined text as it
  is, and every list of names taken from a parsed text box is of that kind.
\<close>

theorem text_import_keeps_failed_names:
  "(importStatus (handleTextImport api s) = ''success'' \<longrightarrow>
      (\<exists>result. api (parse_game_names (textImportInput s)) = Inr result
         \<and> importResults (handleTextImport api s) = Some result
         \<and> textImportInput (handleTextImport api s)
             = join_newline (map name (failed_games result))))
   \<and> ((\<forall>n\<in>set ns. n \<noteq> [] \<and> trim n = n \<and> CHR 0x0A \<notin> set n) \<longrightarrow>
        parse_game_names (join_newline ns) = ns)
   \<and> (set ns \<subseteq> set (parse_game_names submitted) \<longrightarrow>
        parse_game_names (join_newline ns) = ns)"
  using text_import_success [of api s] parse_join_newline [of ns]
        resubmit_parsed_names [of ns submitted]
  by (intro conjI impI)

definition example_text :: string where
  "example_text =
     ''Half-Life 2'' @ [CHR 0x0A] @ '' Not A Real Game XYZ123 '' @ [CHR 0x0A, CHR 0x0A]
       @ ''Half-Life 2''"

lemma example_text_parsed:
  "parse_game_names example_text
     = [''Half-Life 2'', ''Not A Real Game XYZ123'', ''Half-Life 2'']"
  by (simp add: example_text_def parse_game_names_def trim_def js_whitespace_def)

lemma example_text_not_blank: "trim example_text \<noteq> []"
  by (simp add: example_text_def trim_def js_whitespace_def)

theorem text_import_keeps_failed_names_witness:
  "importStatus (handleTextImport (\<lambda>names. Inr example_import_result)
      (library_initial\<lparr>textImportInput := example_text\<rparr>)) = ''success''
   \<and> textImportInput (handleTextImport (\<lambda>names. Inr example_import_result)
      (library_initial\<lparr>textImportInput := example_text\<rparr>))
       = ''Not A Real Game XYZ123'' @ [CHR 0x0A] @ ''Half-Life 2''
   \<and> trim ''Not A Real Game XYZ123'' = ''Not A Real Game XYZ123''
   \<and> trim ''Half-Life 2'' = ''Half-Life 2''
   \<and> parse_game_names (join_newline [''Not A Real Game XYZ123'', ''Half-Life 2''])
       = [''Not A Real Game XYZ123'', ''Half-Life 2'']"
proof -
  let ?api = "\<lambda>names :: string list. (Inr example_import_result :: import_result promise)"
  let ?s = "library_initial\<lparr>textImportInput := example_text\<rparr>"
  let ?ns = "[''Not A Real Game XYZ123'', ''Half-Life 2'']"
  note inst = text_import_keeps_failed_names [of ?api ?s ?ns example_text]
  have ok: "importStatus (handleTextImport ?api ?s) = ''success''"
    by (simp add: handleTextImport_def Let_def example_text_parsed example_text_not_blank
          library_initial_def)
  have clean: "\<forall>n\<in>set ?ns. n \<noteq> [] \<and> trim n = n \<and> CHR 0x0A \<notin> set n"
    by (simp add: trim_def js_whitespace_def)
  from inst [THEN conjunct1] ok
  have "\<exists>result. ?api (parse_game_names (textImportInput ?s)) = Inr result
         \<and> importResults (handleTextImport ?api ?s) = Some result
         \<and> textImportInput (handleTextImport ?api ?s)
             = join_newline (map name (failed_games result))"
    by (rule mp)
  then obtain result where
    "?api (parse_game_names (textImportInput ?s)) = Inr result"
    "textImportInput (handleTextImport ?api ?s) = join_newline (map name (failed_games result))"
    by (elim conjE exE)
  then have "textImportInput (handleTextImport ?api ?s)
       = join_newline (map name (failed_games example_import_result))"
    by simp
  then have kept: "textImportInput (handleTextImport ?api ?s)
       = ''Not A Real Game XYZ123'' @ [CHR 0x0A] @ ''Half-Life 2''"
    by (simp add: example_import_result_def)
  from inst [THEN conjunct2, THEN conjunct1] clean
  have "parse_game_names (join_newline ?ns) = ?ns"
    by (rule mp)
  moreover have "trim ''Not A Real Game XYZ123'' = ''Not A Real Game XYZ123''"
    and "trim ''Half-Life 2'' = ''Half-Life 2''"
    using clean by simp_all
  ultimately show ?thesis using ok kept by (intro conjI)
qed

section \<open>Settings page: the component state\<close>

text \<open>
  The settings object held by the \<^verbatim>\<open>Settings\<close> component, with the field
  types of its initial value.
\<close>

record settings =
  maxRequestsPerUser :: int
  requireAdminApproval :: bool
  allowUserRequestDeletion :: bool
  telegramEnabled :: bool
  telegramBotToken :: string
  telegramChatId :: string
  notifyOnNewRequest :: bool
  notifyOnStatusChange :: bool
  notifyOnUserRegistration :: bool
  notifyOnSystemErrors :: bool
  enableApplicationLogs :: bool
  enableErrorLogs :: bool
  enableAuditLogs :: bool
  logRetentionDays :: int

definition default_settings :: settings where
  "default_settings =
     \<lparr>maxRequestsPerUser = - 1,
      requireAdminApproval = True,
      allowUserRequestDeletion = False,
      telegramEnabled = False,
      telegramBotToken = [],
      telegramChatId = [],
      notifyOnNewRequest = True,
      notifyOnStatusChange = True,
      notifyOnUserRegistration = False,
      notifyOnSystemErrors = False,
      enableApplicationLogs = True,
      enableErrorLogs = True,
      enableAuditLogs = True,
      logRetentionDays = 30\<rparr>"

text \<open>
  A key together with a value of the key's type; \<open>assign\<close> is the object spread
  \<^verbatim>\<open>{...prev, [key]: value}\<close>.
\<close>

datatype setting_change =
    MaxRequestsPerUser int
  | RequireAdminApproval bool
  | AllowUserRequestDeletion bool
  | TelegramEnabled bool
  | TelegramBotToken string
  | TelegramChatId string
  | NotifyOnNewRequest bool
  | NotifyOnStatusChange bool
  | NotifyOnUserRegistration bool
  | NotifyOnSystemErrors bool
  | EnableApplicationLogs bool
  | EnableErrorLogs bool
  | EnableAuditLogs bool
  | LogRetentionDays int

fun assign :: "setting_change \<Rightarrow> settings \<Rightarrow> settings" where
  "assign (MaxRequestsPerUser v) prev = prev\<lparr>maxRequestsPerUser := v\<rparr>"
| "assign (RequireAdminApproval v) prev = prev\<lparr>requireAdminApproval := v\<rparr>"
| "assign (AllowUserRequestDeletion v) prev = prev\<lparr>allowUserRequestDeletion := v\<rparr>"
| "assign (TelegramEnabled v) prev = prev\<lparr>telegramEnabled := v\<rparr>"
| "assign (TelegramBotToken v) prev = prev\<lparr>telegramBotToken := v\<rparr>"
| "assign (TelegramChatId v) prev = prev\<lparr>telegramChatId := v\<rparr>"
| "assign (NotifyOnNewRequest v) prev = prev\<lparr>notifyOnNewRequest := v\<rparr>"
| "assign (NotifyOnStatusChange v) prev = prev\<lparr>notifyOnStatusChange := v\<rparr>"
| "assign (NotifyOnUserRegistration v) prev = prev\<lparr>notifyOnUserRegistration := v\<rparr>"
| "assign (NotifyOnSystemErrors v) prev = prev\<lparr>notifyOnSystemErrors := v\<rparr>"
| "assign (EnableApplicationLogs v) prev = prev\<lparr>enableApplicationLogs := v\<rparr>"
| "assign (EnableErrorLogs v) prev = prev\<lparr>enableErrorLogs := v\<rparr>"
| "assign (EnableAuditLogs v) prev = prev\<lparr>enableAuditLogs := v\<rparr>"
| "assign (LogRetentionDays v) prev = prev\<lparr>logRetentionDays := v\<rparr>"

text \<open>\<^verbatim>\<open>key === 'telegramBotToken' || key === 'telegramChatId'\<close>\<close>

fun is_credential_key :: "setting_change \<Rightarrow> bool" where
  "is_credential_key (TelegramBotToken v) = True"
| "is_credential_key (TelegramChatId v) = True"
| "is_credential_key c = False"

text \<open>The four notification types of the Telegram tab and their settings keys.\<close>

datatype notify_key = NewRequest | StatusChange | UserRegistration | SystemErrors

fun notify_change :: "notify_key \<Rightarrow> bool \<Rightarrow> setting_change" where
  "notify_change NewRequest v = NotifyOnNewRequest v"
| "notify_change StatusChange v = NotifyOnStatusChange v"
| "notify_change UserRegistration v = NotifyOnUserRegistration v"
| "notify_change SystemErrors v = NotifyOnSystemErrors v"

fun notify_value :: "notify_key \<Rightarrow> settings \<Rightarrow> bool" where
  "notify_value NewRequest st = notifyOnNewRequest st"
| "notify_value StatusChange st = notifyOnStatusChange st"
| "notify_value UserRegistration st = notifyOnUserRegistration st"
| "notify_value SystemErrors st = notifyOnSystemErrors st"

text \<open>
  An asynchronous handler runs up to its first \<^verbatim>\<open>await\<close> when it is called and
  resumes when the awaited requests have settled; other handlers may run in between.
  A handler that is waiting is recorded as a pending call together with the values of
  its closure that it uses after resuming. State updates of the form
  \<^verbatim>\<open>setSettings(prev => ...)\<close> act on the state at the moment they run.

  The component state kept here: the active tab, \<^verbatim>\<open>loading\<close>,
  \<^verbatim>\<open>telegramTestSuccess\<close> and \<^verbatim>\<open>settings\<close>. The cells
  \<^verbatim>\<open>logs\<close>, \<^verbatim>\<open>logsLoading\<close> and \<^verbatim>\<open>infoModal\<close> are only
  written by the handlers and never read by a handler or by the \<^verbatim>\<open>disabled\<close>
  attribute of a control; they are left out, and with them the log handlers, which
  touch nothing else.
\<close>

datatype pending_call =
    LoadSettingsCall
  | TelegramToggleCall bool
  | NotificationToggleCall notify_key bool
  | SaveCall
  | TestCall

record settings_state =
  activeTab :: string
  loading :: bool
  telegramTestSuccess :: bool
  settings :: settings
  pending :: "pending_call list"

definition settings_initial :: settings_state where
  "settings_initial =
     \<lparr>activeTab = ''general'', loading = False, telegramTestSuccess = False,
      settings = default_settings, pending = []\<rparr>"

section \<open>Settings page: the handlers\<close>

text \<open>
  \<^verbatim>\<open>loadSettings\<close>: an OK response replaces the settings by the body (without
  \<^verbatim>\<open>logLevel\<close>); anything else is ignored. \<open>LoadThrew\<close> stands for a
  rejected fetch and for a body that does not parse.
\<close>

datatype load_outcome = LoadThrew | LoadResponse bool settings

definition loadSettings_begin :: "settings_state \<Rightarrow> settings_state" where
  "loadSettings_begin s = s\<lparr>loading := True, pending := pending s @ [LoadSettingsCall]\<rparr>"

definition loadSettings_done :: "load_outcome \<Rightarrow> settings_state \<Rightarrow> settings_state" where
  "loadSettings_done r s =
     (case r of
        LoadThrew \<Rightarrow> s
      | LoadResponse ok data \<Rightarrow> (if ok then s\<lparr>settings := data\<rparr> else s))
     \<lparr>loading := False\<rparr>"

text \<open>
  \<^verbatim>\<open>handleSettingChange\<close>: the first \<^verbatim>\<open>setSettings\<close> stores the value;
  for a credential key the test flag is cleared and, if the channel was enabled in the
  rendered state, a second \<^verbatim>\<open>setSettings\<close> stores the value again and switches
  the channel off.
\<close>

definition handleSettingChange :: "setting_change \<Rightarrow> settings_state \<Rightarrow> settings_state" where
  "handleSettingChange c s =
     (let s1 = s\<lparr>settings := assign c (settings s)\<rparr>
      in if is_credential_key c then
           let s2 = s1\<lparr>telegramTestSuccess := False\<rparr>
           in if telegramEnabled (settings s) then
                s2\<lparr>settings := (assign c (settings s2))\<lparr>telegramEnabled := False\<rparr>\<rparr>
              else s2
         else s1)"

text \<open>
  A \<^verbatim>\<open>PUT\<close> of the settings either throws (rejected fetch) or answers with its
  \<^verbatim>\<open>ok\<close> flag.
\<close>

datatype put_outcome = PutThrew | PutResponse bool

text \<open>
  \<^verbatim>\<open>handleTelegramToggle\<close>: the new value is stored at once and sent to the
  server; a non-OK answer stores its negation again, a rejected fetch changes nothing.
\<close>

definition handleTelegramToggle_begin :: "settings_state \<Rightarrow> settings_state" where
  "handleTelegramToggle_begin s =
     (let newValue = \<not> telegramEnabled (settings s)
      in s\<lparr>loading := True,
           settings := (settings s)\<lparr>telegramEnabled := newValue\<rparr>,
           pending := pending s @ [TelegramToggleCall newValue]\<rparr>)"

definition handleTelegramToggle_done ::
  "bool \<Rightarrow> put_outcome \<Rightarrow> settings_state \<Rightarrow> settings_state" where
  "handleTelegramToggle_done newValue r s =
     (case r of
        PutThrew \<Rightarrow> s
      | PutResponse ok \<Rightarrow>
          (if ok then s else s\<lparr>settings := (settings s)\<lparr>telegramEnabled := \<not> newValue\<rparr>\<rparr>))
     \<lparr>loading := False\<rparr>"

text \<open>\<^verbatim>\<open>handleTelegramNotificationToggle\<close>, with the same optimistic update and revert.\<close>

definition handleTelegramNotificationToggle_begin ::
  "notify_key \<Rightarrow> bool \<Rightarrow> settings_state \<Rightarrow> settings_state" where
  "handleTelegramNotificationToggle_begin key newValue s =
     s\<lparr>loading := True,
       settings := assign (notify_change key newValue) (settings s),
       pending := pending s @ [NotificationToggleCall key newValue]\<rparr>"

definition handleTelegramNotificationToggle_done ::
  "notify_key \<Rightarrow> bool \<Rightarrow> put_outcome \<Rightarrow> settings_state \<Rightarrow> settings_state" where
  "handleTelegramNotificationToggle_done key newValue r s =
     (case r of
        PutThrew \<Rightarrow> s
      | PutResponse ok \<Rightarrow>
          (if ok then s
           else s\<lparr>settings := assign (notify_change key (\<not> newValue)) (settings s)\<rparr>))
     \<lparr>loading := False\<rparr>"

text \<open>\<^verbatim>\<open>handleSave\<close> sends the settings and changes nothing but \<^verbatim>\<open>loading\<close>.\<close>

definition handleSave_begin :: "settings_state \<Rightarrow> settings_state" where
  "handleSave_begin s = s\<lparr>loading := True, pending := pending s @ [SaveCall]\<rparr>"

definition handleSave_done :: "put_outcome \<Rightarrow> settings_state \<Rightarrow> settings_state" where
  "handleSave_done r s = s\<lparr>loading := False\<rparr>"

text \<open>
  \<^verbatim>\<open>testTelegramConnection\<close> returns at once when a credential is empty.
  Otherwise it saves the settings and then posts the credentials to the test endpoint;
  no state is written between the two requests, so they settle as one outcome: the save
  threw or was not OK, the test request threw or its body did not parse, or the test
  endpoint answered with its \<^verbatim>\<open>ok\<close> flag and a body. Of the body only
  \<^verbatim>\<open>success\<close> is read into the state: \<open>Some b\<close> for a boolean, \<open>None\<close>
  when the field is missing or not a boolean, so that
  \<^verbatim>\<open>data.success === true\<close> is \<open>success data = Some True\<close>.
\<close>

record test_body =
  success :: "bool option"

datatype test_outcome =
    SaveFailed
  | TestThrew
  | TestResponse bool test_body

definition testTelegramConnection_begin :: "settings_state \<Rightarrow> settings_state" where
  "testTelegramConnection_begin s =
     (if telegramBotToken (settings s) = [] \<or> telegramChatId (settings s) = [] then s
      else s\<lparr>loading := True, pending := pending s @ [TestCall]\<rparr>)"

definition testTelegramConnection_done :: "test_outcome \<Rightarrow> settings_state \<Rightarrow> settings_state" where
  "testTelegramConnection_done r s =
     (case r of
        SaveFailed \<Rightarrow> s\<lparr>telegramTestSuccess := False\<rparr>
      | TestThrew \<Rightarrow> s\<lparr>telegramTestSuccess := False\<rparr>
      | TestResponse ok data \<Rightarrow>
          (if ok \<and> success data = Some True then s\<lparr>telegramTestSuccess := True\<rparr>
           else s\<lparr>telegramTestSuccess := False\<rparr>))
     \<lparr>loading := False\<rparr>"

section \<open>Settings page: what is rendered and what can happen\<close>

text \<open>
  \<^verbatim>\<open>isAdmin\<close> of the authentication context: \<^verbatim>\<open>user?.role === 'admin'\<close>.
\<close>

record auth_user =
  username :: string
  role :: string

definition isAdmin :: "auth_user option \<Rightarrow> bool" where
  "isAdmin user = (case user of None \<Rightarrow> False | Some u \<Rightarrow> role u = ''admin'')"

text \<open>
  A render returns either the redirect \<^verbatim>\<open><Navigate to=... replace />\<close> or the
  page with its controls.
\<close>

datatype element = Navigate string bool | Page

text \<open>
  Both \<^verbatim>\<open>useEffect\<close> hooks of \<^verbatim>\<open>Settings\<close> are registered before the role
  check, so React runs them after the first render whatever that render returned: the
  first calls \<^verbatim>\<open>loadSettings\<close>, the second calls \<^verbatim>\<open>loadLogs\<close> when the
  logs tab is active. The component returns the redirect for a non-administrator. (The
  loading screen needs a settings object without keys, which the record excludes.)
\<close>

datatype effect_call = LoadSettingsEffect | LoadLogsEffect

definition Settings :: "bool \<Rightarrow> settings_state \<Rightarrow> effect_call list \<times> element" where
  "Settings admin s =
     ([LoadSettingsEffect] @ (if activeTab s = ''logs'' then [LoadLogsEffect] else []),
      if \<not> admin then Navigate ''/'' True else Page)"

text \<open>The state once the mount effects have run: \<^verbatim>\<open>loadSettings\<close> is waiting.\<close>

definition settings_mounted :: settings_state where
  "settings_mounted = loadSettings_begin settings_initial"

text \<open>The \<^verbatim>\<open>disabled\<close> attribute of the Enable Telegram toggle.\<close>

definition enable_toggle_disabled :: "settings_state \<Rightarrow> bool" where
  "enable_toggle_disabled s =
     ((\<not> telegramTestSuccess s \<and> \<not> telegramEnabled (settings s)) \<or> loading s)"

text \<open>
  The calls of \<^verbatim>\<open>handleSettingChange\<close> that the controls of the active tab can
  make: the request-limit select with its eight options, the toggles with the negation
  of the current value, the text and number inputs with any value.
\<close>

fun change_offered :: "settings_state \<Rightarrow> setting_change \<Rightarrow> bool" where
  "change_offered s (MaxRequestsPerUser v) =
     (activeTab s = ''general'' \<and> v \<in> set [- 1, 1, 2, 3, 5, 10, 20, 50])"
| "change_offered s (RequireAdminApproval v) =
     (activeTab s = ''general'' \<and> v = (\<not> requireAdminApproval (settings s)))"
| "change_offered s (AllowUserRequestDeletion v) =
     (activeTab s = ''general'' \<and> v = (\<not> allowUserRequestDeletion (settings s)))"
| "change_offered s (TelegramBotToken v) = (activeTab s = ''telegram'')"
| "change_offered s (TelegramChatId v) = (activeTab s = ''telegram'')"
| "change_offered s (LogRetentionDays v) = (activeTab s = ''logs'')"
| "change_offered s (EnableApplicationLogs v) =
     (activeTab s = ''logs'' \<and> v = (\<not> enableApplicationLogs (settings s)))"
| "change_offered s (EnableErrorLogs v) =
     (activeTab s = ''logs'' \<and> v = (\<not> enableErrorLogs (settings s)))"
| "change_offered s (EnableAuditLogs v) =
     (activeTab s = ''logs'' \<and> v = (\<not> enableAuditLogs (settings s)))"
| "change_offered s c = False"

text \<open>
  Events: what the user does with a rendered control, and the settling of a pending
  call with an outcome chosen by the server.
\<close>

datatype settings_event =
    SelectTab string
  | ChangeSetting setting_change
  | ClickEnableToggle
  | ClickNotificationToggle notify_key
  | ClickSave
  | ClickTest
  | LoadSettingsDone load_outcome
  | TelegramToggleDone bool put_outcome
  | NotificationToggleDone notify_key bool put_outcome
  | SaveDone put_outcome
  | TestDone test_outcome

fun is_user_event :: "settings_event \<Rightarrow> bool" where
  "is_user_event (LoadSettingsDone r) = False"
| "is_user_event (TelegramToggleDone v r) = False"
| "is_user_event (NotificationToggleDone k v r) = False"
| "is_user_event (SaveDone r) = False"
| "is_user_event (TestDone r) = False"
| "is_user_event e = True"

text \<open>
  One step of the page. A user event needs its control to be rendered (the tab) and not
  disabled; a call can settle only while it is pending.
\<close>

definition settle :: "pending_call \<Rightarrow> settings_state \<Rightarrow> settings_state" where
  "settle call s = s\<lparr>pending := remove1 call (pending s)\<rparr>"

fun page_step :: "settings_state \<Rightarrow> settings_event \<Rightarrow> settings_state option" where
  "page_step s (SelectTab t) =
     (if t \<in> set [''general'', ''telegram'', ''logs''] then Some (s\<lparr>activeTab := t\<rparr>) else None)"
| "page_step s (ChangeSetting c) =
     (if change_offered s c then Some (handleSettingChange c s) else None)"
| "page_step s ClickEnableToggle =
     (if activeTab s = ''telegram'' \<and> \<not> enable_toggle_disabled s
      then Some (handleTelegramToggle_begin s) else None)"
| "page_step s (ClickNotificationToggle key) =
     (if activeTab s = ''telegram'' \<and> \<not> (\<not> telegramEnabled (settings s) \<or> loading s)
      then Some (handleTelegramNotificationToggle_begin key (\<not> notify_value key (settings s)) s)
      else None)"
| "page_step s ClickSave =
     (if (activeTab s = ''general'' \<or> activeTab s = ''logs'') \<and> \<not> loading s
      then Some (handleSave_begin s) else None)"
| "page_step s ClickTest =
     (if activeTab s = ''telegram'' \<and> \<not> loading s
      then Some (testTelegramConnection_begin s) else None)"
| "page_step s (LoadSettingsDone r) =
     (if LoadSettingsCall \<in> set (pending s)
      then Some (loadSettings_done r (settle LoadSettingsCall s)) else None)"
| "page_step s (TelegramToggleDone newValue r) =
     (if TelegramToggleCall newValue \<in> set (pending s)
      then Some (handleTelegramToggle_done newValue r (settle (TelegramToggleCall newValue) s))
      else None)"
| "page_step s (NotificationToggleDone key newValue r) =
     (if NotificationToggleCall key newValue \<in> set (pending s)
      then Some (handleTelegramNotificationToggle_done key newValue r
                   (settle (NotificationToggleCall key newValue) s))
      else None)"
| "page_step s (SaveDone r) =
     (if SaveCall \<in> set (pending s) then Some (handleSave_done r (settle SaveCall s)) else None)"
| "page_step s (TestDone r) =
     (if TestCall \<in> set (pending s)
      then Some (testTelegramConnection_done r (settle TestCall s)) else None)"

text \<open>
  With the redirect on screen there is no control to use. A pending call may still
  settle. (For a non-administrator the redirect unmounts the component, and a call that
  settles later has no state left to write: there the steps below are more than the
  page can take.)
\<close>

definition settings_step :: "bool \<Rightarrow> settings_state \<Rightarrow> settings_event \<Rightarrow> settings_state option" where
  "settings_step admin s e =
     (if is_user_event e \<and> snd (Settings admin s) \<noteq> Page then None else page_step s e)"

fun settings_run :: "bool \<Rightarrow> settings_state \<Rightarrow> settings_event list \<Rightarrow> settings_state option" where
  "settings_run admin s [] = Some s"
| "settings_run admin s (e # es) =
     (case settings_step admin s e of
        None \<Rightarrow> None
      | Some s' \<Rightarrow> settings_run admin s' es)"

section \<open>Telegram: enabling needs a successful test\<close>

text \<open>
  A test delivery has succeeded when the test endpoint answers OK with
  \<^verbatim>\<open>success\<close> equal to \<^verbatim>\<open>true\<close>. The server reports the channel as
  already enabled when an OK settings response carries \<open>telegramEnabled\<close>.
\<close>

fun test_delivered :: "settings_event \<Rightarrow> bool" where
  "test_delivered (TestDone (TestResponse ok data)) = (ok \<and> success data = Some True)"
| "test_delivered e = False"

fun stored_enabled :: "settings_event \<Rightarrow> bool" where
  "stored_enabled (LoadSettingsDone (LoadResponse ok data)) = (ok \<and> telegramEnabled data)"
| "stored_enabled e = False"

text \<open>
  The channel is enabled, or may become enabled without a further test: the flag is
  set, the test flag is set, or a call that switched the channel off is still waiting
  and would switch it on again if the server refuses.
\<close>

definition validated :: "settings_state \<Rightarrow> bool" where
  "validated s =
     (telegramEnabled (settings s) \<or> telegramTestSuccess s
      \<or> TelegramToggleCall False \<in> set (pending s))"

lemmas handler_defs =
  loadSettings_begin_def loadSettings_done_def handleSettingChange_def
  handleTelegramToggle_begin_def handleTelegramToggle_done_def
  handleTelegramNotificationToggle_begin_def handleTelegramNotificationToggle_done_def
  handleSave_begin_def handleSave_done_def testTelegramConnection_begin_def
  testTelegramConnection_done_def settle_def

lemma in_remove1: "x \<in> set (remove1 y xs) \<Longrightarrow> x \<in> set xs"
  by (metis notin_set_remove1)

lemma test_flag_page_step:
  "page_step s e = Some s' \<Longrightarrow> telegramTestSuccess s' \<Longrightarrow> \<not> telegramTestSuccess s
     \<Longrightarrow> test_delivered e"
proof (cases e)
  case (TestDone r)
  then show "page_step s e = Some s' \<Longrightarrow> telegramTestSuccess s' \<Longrightarrow> \<not> telegramTestSuccess s
     \<Longrightarrow> test_delivered e"
    by (cases r) (auto simp: handler_defs split: if_splits)
qed (auto simp: handler_defs Let_def split: if_splits load_outcome.splits put_outcome.splits)

lemma handleSettingChange_validated:
  "change_offered s c \<Longrightarrow> validated (handleSettingChange c s) \<Longrightarrow> validated s"
  by (cases c) (auto simp: validated_def handleSettingChange_def Let_def split: if_splits)

lemma validated_page_step:
  "page_step s e = Some s' \<Longrightarrow> validated s'
     \<Longrightarrow> validated s \<or> test_delivered e \<or> stored_enabled e"
proof (cases e)
  case (ChangeSetting c)
  then show "page_step s e = Some s' \<Longrightarrow> validated s'
     \<Longrightarrow> validated s \<or> test_delivered e \<or> stored_enabled e"
    using handleSettingChange_validated [of s c] by (auto split: if_splits)
next
  case (TestDone r)
  then show "page_step s e = Some s' \<Longrightarrow> validated s'
     \<Longrightarrow> validated s \<or> test_delivered e \<or> stored_enabled e"
    by (cases r) (auto simp: handler_defs validated_def split: if_splits dest: in_remove1)
next
  case (LoadSettingsDone r)
  then show "page_step s e = Some s' \<Longrightarrow> validated s'
     \<Longrightarrow> validated s \<or> test_delivered e \<or> stored_enabled e"
    by (cases r) (auto simp: handler_defs validated_def split: if_splits dest: in_remove1)
next
  case (TelegramToggleDone v r)
  then show "page_step s e = Some s' \<Longrightarrow> validated s'
     \<Longrightarrow> validated s \<or> test_delivered e \<or> stored_enabled e"
    by (cases r; cases v) (auto simp: handler_defs validated_def split: if_splits dest: in_remove1)
next
  case (NotificationToggleDone k v r)
  then show "page_step s e = Some s' \<Longrightarrow> validated s'
     \<Longrightarrow> validated s \<or> test_delivered e \<or> stored_enabled e"
    by (cases r; cases k) (auto simp: handler_defs validated_def split: if_splits dest: in_remove1)
next
  case (ClickNotificationToggle k)
  then show "page_step s e = Some s' \<Longrightarrow> validated s'
     \<Longrightarrow> validated s \<or> test_delivered e \<or> stored_enabled e"
    by (cases k) (auto simp: handler_defs validated_def split: if_splits)
qed (auto simp: handler_defs validated_def enable_toggle_disabled_def Let_def
          split: if_splits dest: in_remove1)

lemma settings_step_page: "settings_step admin s e = Some s' \<Longrightarrow> page_step s e = Some s'"
  by (simp add: settings_step_def split: if_splits)

lemma validated_run:
  "settings_run admin s evs = Some t \<Longrightarrow> validated t
     \<Longrightarrow> validated s \<or> list_ex test_delivered evs \<or> list_ex stored_enabled evs"
proof (induction evs arbitrary: s)
  case Nil
  then show ?case by simp
next
  case (Cons e es)
  from Cons.prems(1) obtain s' where step: "settings_step admin s e = Some s'"
    and rest: "settings_run admin s' es = Some t"
    by (auto split: option.splits)
  from Cons.IH [OF rest Cons.prems(2)]
  have "validated s' \<or> list_ex test_delivered es \<or> list_ex stored_enabled es" .
  moreover have "validated s' \<Longrightarrow> validated s \<or> test_delivered e \<or> stored_enabled e"
    using validated_page_step [OF settings_step_page [OF step]] .
  ultimately show ?case by auto
qed

lemma settings_mounted_not_validated: "\<not> validated settings_mounted"
  by (simp add: validated_def settings_mounted_def settings_initial_def loadSettings_begin_def
        default_settings_def)

lemma enable_click_needs_test:
  "settings_step admin s ClickEnableToggle = Some s' \<Longrightarrow> \<not> telegramEnabled (settings s)
     \<Longrightarrow> telegramTestSuccess s"
  by (auto simp: settings_step_def enable_toggle_disabled_def split: if_splits)

text \<open>
  C1. In every state of the component, the Enable Telegram toggle is disabled when
  \<open>telegramTestSuccess\<close> is false and the stored \<open>telegramEnabled\<close> is false, so a
  click can switch the channel on only with the test flag set. A step sets
  \<open>telegramTestSuccess\<close> only if it is the settling of a test whose endpoint answered
  OK with \<^verbatim>\<open>success\<close> equal to \<^verbatim>\<open>true\<close>. Hence, along every run of the
  mounted page, the channel is enabled only after a successful test delivery in that
  run, or after the server itself reported the stored setting as enabled.
\<close>

theorem telegram_enable_requires_test:
  "(\<not> telegramTestSuccess s \<and> \<not> telegramEnabled (settings s) \<longrightarrow> enable_toggle_disabled s)
   \<and> (settings_step admin s ClickEnableToggle = Some s' \<and> \<not> telegramEnabled (settings s)
        \<longrightarrow> telegramTestSuccess s)
   \<and> (settings_step admin s e = Some s' \<and> \<not> telegramTestSuccess s \<and> telegramTestSuccess s'
        \<longrightarrow> test_delivered e)
   \<and> (settings_run admin settings_mounted evs = Some t \<and> telegramEnabled (settings t)
        \<longrightarrow> list_ex test_delivered evs \<or> list_ex stored_enabled evs)"
proof (intro conjI impI)
  assume "\<not> telegramTestSuccess s \<and> \<not> telegramEnabled (settings s)"
  then show "enable_toggle_disabled s" by (simp add: enable_toggle_disabled_def)
next
  assume "settings_step admin s ClickEnableToggle = Some s' \<and> \<not> telegramEnabled (settings s)"
  then show "telegramTestSuccess s" using enable_click_needs_test by blast
next
  assume "settings_step admin s e = Some s' \<and> \<not> telegramTestSuccess s \<and> telegramTestSuccess s'"
  then show "test_delivered e"
    using test_flag_page_step [OF settings_step_page] by blast
next
  assume a: "settings_run admin settings_mounted evs = Some t \<and> telegramEnabled (settings t)"
  then have "validated t" by (simp add: validated_def)
  with a validated_run [of admin settings_mounted evs t] settings_mounted_not_validated
  show "list_ex test_delivered evs \<or> list_ex stored_enabled evs" by blast
qed

definition example_trace :: "settings_event list" where
  "example_trace =
     [LoadSettingsDone (LoadResponse True default_settings),
      SelectTab ''telegram'',
      ChangeSetting (TelegramBotToken ''123:abc''),
      ChangeSetting (TelegramChatId ''-100''),
      ClickTest,
      TestDone (TestResponse True \<lparr>success = Some True\<rparr>),
      ClickEnableToggle,
      TelegramToggleDone True (PutResponse True)]"

definition example_testing :: settings_state where
  "example_testing =
     \<lparr>activeTab = ''telegram'', loading = True, telegramTestSuccess = False,
      settings = default_settings\<lparr>telegramBotToken := ''123:abc'', telegramChatId := ''-100''\<rparr>,
      pending = [TestCall]\<rparr>"

definition example_tested :: settings_state where
  "example_tested = example_testing\<lparr>pending := [], telegramTestSuccess := True, loading := False\<rparr>"

definition example_enabled :: settings_state where
  "example_enabled =
     \<lparr>activeTab = ''telegram'', loading = False, telegramTestSuccess = True,
      settings = default_settings\<lparr>telegramEnabled := True, telegramBotToken := ''123:abc'',
                                    telegramChatId := ''-100''\<rparr>,
      pending = []\<rparr>"

lemma example_run: "settings_run True settings_mounted example_trace = Some example_enabled"
  by (simp add: example_trace_def example_enabled_def settings_mounted_def settings_initial_def
        settings_step_def Settings_def handler_defs enable_toggle_disabled_def default_settings_def)

lemma example_test_settles:
  "settings_step True example_testing (TestDone (TestResponse True \<lparr>success = Some True\<rparr>))
     = Some example_tested"
  by (simp add: example_testing_def example_tested_def settings_step_def handler_defs)

lemma example_enable_click:
  "settings_step True example_tested ClickEnableToggle
     = Some (example_enabled\<lparr>loading := True, pending := [TelegramToggleCall True]\<rparr>)"
  by (simp add: example_testing_def example_tested_def example_enabled_def settings_step_def
        Settings_def handler_defs enable_toggle_disabled_def default_settings_def)

theorem telegram_enable_requires_test_witness:
  "(\<not> telegramTestSuccess settings_initial \<and> \<not> telegramEnabled (settings settings_initial))
   \<and> enable_toggle_disabled settings_initial
   \<and> (settings_step True example_tested ClickEnableToggle
         = Some (example_enabled\<lparr>loading := True, pending := [TelegramToggleCall True]\<rparr>)
        \<and> \<not> telegramEnabled (settings example_tested))
   \<and> telegramTestSuccess example_tested
   \<and> (settings_step True example_testing (TestDone (TestResponse True \<lparr>success = Some True\<rparr>))
         = Some example_tested
        \<and> \<not> telegramTestSuccess example_testing \<and> telegramTestSuccess example_tested)
   \<and> test_delivered (TestDone (TestResponse True \<lparr>success = Some True\<rparr>))
   \<and> (settings_run True settings_mounted example_trace = Some example_enabled
        \<and> telegramEnabled (settings example_enabled))
   \<and> (list_ex test_delivered example_trace \<or> list_ex stored_enabled example_trace)"
proof -
  have h1: "\<not> telegramTestSuccess settings_initial \<and> \<not> telegramEnabled (settings settings_initial)"
    by (simp add: settings_initial_def default_settings_def)
  have c1: "enable_toggle_disabled settings_initial"
    using telegram_enable_requires_test
            [of settings_initial True settings_initial ClickSave "[]" settings_mounted,
             THEN conjunct1] h1
    by (rule mp)
  have h2: "settings_step True example_tested ClickEnableToggle
         = Some (example_enabled\<lparr>loading := True, pending := [TelegramToggleCall True]\<rparr>)
        \<and> \<not> telegramEnabled (settings example_tested)"
    using example_enable_click
    by (simp add: example_tested_def example_testing_def default_settings_def)
  have c2: "telegramTestSuccess example_tested"
    using telegram_enable_requires_test
            [of example_tested True
                "example_enabled\<lparr>loading := True, pending := [TelegramToggleCall True]\<rparr>"
                ClickSave "[]" settings_mounted,
             THEN conjunct2, THEN conjunct1] h2
    by (rule mp)
  have h3: "settings_step True example_testing (TestDone (TestResponse True \<lparr>success = Some True\<rparr>))
         = Some example_tested
        \<and> \<not> telegramTestSuccess example_testing \<and> telegramTestSuccess example_tested"
    using example_test_settles by (simp add: example_tested_def example_testing_def)
  have c3: "test_delivered (TestDone (TestResponse True \<lparr>success = Some True\<rparr>))"
    using telegram_enable_requires_test
            [of example_testing True example_tested
                "TestDone (TestResponse True \<lparr>success = Some True\<rparr>)" "[]" settings_mounted,
             THEN conjunct2, THEN conjunct2, THEN conjunct1] h3
    by (rule mp)
  have h4: "settings_run True settings_mounted example_trace = Some example_enabled
        \<and> telegramEnabled (settings example_enabled)"
    using example_run by (simp add: example_enabled_def)
  have c4: "list_ex test_delivered example_trace \<or> list_ex stored_enabled example_trace"
    using telegram_enable_requires_test
            [of settings_initial True settings_initial ClickSave example_trace example_enabled,
             THEN conjunct2, THEN conjunct2, THEN conjunct2] h4
    by (rule mp)
  from h1 c1 h2 c2 h3 c3 h4 c4 show ?thesis by blast
qed

section \<open>Telegram: editing the credentials and the last successful test\<close>

text \<open>
  What \<^verbatim>\<open>handleSettingChange\<close> does by itself: for the bot token or the chat id
  it stores the new value, clears \<open>telegramTestSuccess\<close> and leaves
  \<open>telegramEnabled\<close> false, so that the enable toggle is disabled right after the
  edit; for any other key it only stores the value.
\<close>

lemma credential_change_effect:
  "is_credential_key c \<Longrightarrow>
     \<not> telegramTestSuccess (handleSettingChange c s)
     \<and> \<not> telegramEnabled (settings (handleSettingChange c s))
     \<and> settings (handleSettingChange c s) = (assign c (settings s))\<lparr>telegramEnabled := False\<rparr>
     \<and> enable_toggle_disabled (handleSettingChange c s)"
  by (cases c) (simp_all add: handleSettingChange_def Let_def enable_toggle_disabled_def)

lemma other_change_effect:
  "\<not> is_credential_key c \<Longrightarrow>
     handleSettingChange c s = s\<lparr>settings := assign c (settings s)\<rparr>"
  by (simp add: handleSettingChange_def Let_def)

text \<open>
  The invariant of the claim: an enabled channel has the credentials of the last
  successful test. The component does not store those credentials; they are the
  argument \<open>tested\<close>.
\<close>

definition credentials_validated :: "(string \<times> string) option \<Rightarrow> settings_state \<Rightarrow> bool" where
  "credentials_validated tested s =
     (telegramEnabled (settings s) \<longrightarrow>
        tested = Some (telegramBotToken (settings s), telegramChatId (settings s)))"

text \<open>
  \<^verbatim>\<open>handleSettingChange\<close> itself preserves the invariant, for every key but
  \<open>telegramEnabled\<close>, which no control passes.
\<close>

fun is_enable_key :: "setting_change \<Rightarrow> bool" where
  "is_enable_key (TelegramEnabled v) = True"
| "is_enable_key c = False"

lemma change_offered_not_enable_key: "change_offered s c \<Longrightarrow> \<not> is_enable_key c"
  by (cases c) simp_all

lemma handleSettingChange_keeps_validated:
  "\<not> is_enable_key c \<Longrightarrow> credentials_validated tested s
     \<Longrightarrow> credentials_validated tested (handleSettingChange c s)"
  by (cases c) (auto simp: credentials_validated_def handleSettingChange_def Let_def)

text \<open>
  The credentials that \<^verbatim>\<open>testTelegramConnection\<close> posts to the test endpoint are
  those of the state in which the button is clicked (the handler reads them from its
  closure, also after the \<^verbatim>\<open>await\<close>).
\<close>

definition test_request_body :: "settings_state \<Rightarrow> string \<times> string" where
  "test_request_body s = (telegramBotToken (settings s), telegramChatId (settings s))"

text \<open>
  First run. The administrator enters the token \<^verbatim>\<open>111:aaa\<close> and a chat id, clicks
  the test button, edits the token to \<^verbatim>\<open>222:bbb\<close> while the test is under way
  (the two text inputs carry no \<^verbatim>\<open>disabled\<close> attribute, unlike the buttons), the
  test of \<^verbatim>\<open>111:aaa\<close> succeeds, and the toggle is clicked and saved.
\<close>

definition race_prefix :: "settings_event list" where
  "race_prefix =
     [LoadSettingsDone (LoadResponse True default_settings),
      SelectTab ''telegram'',
      ChangeSetting (TelegramBotToken ''111:aaa''),
      ChangeSetting (TelegramChatId ''-100'')]"

definition race_ready :: settings_state where
  "race_ready =
     \<lparr>activeTab = ''telegram'', loading = False, telegramTestSuccess = False,
      settings = default_settings\<lparr>telegramBotToken := ''111:aaa'', telegramChatId := ''-100''\<rparr>,
      pending = []\<rparr>"

definition race_suffix :: "settings_event list" where
  "race_suffix =
     [ClickTest,
      ChangeSetting (TelegramBotToken ''222:bbb''),
      TestDone (TestResponse True \<lparr>success = Some True\<rparr>),
      ClickEnableToggle,
      TelegramToggleDone True (PutResponse True)]"

definition race_enabled :: settings_state where
  "race_enabled =
     \<lparr>activeTab = ''telegram'', loading = False, telegramTestSuccess = True,
      settings = default_settings\<lparr>telegramEnabled := True, telegramBotToken := ''222:bbb'',
                                    telegramChatId := ''-100''\<rparr>,
      pending = []\<rparr>"

text \<open>
  Second run. The server reports the channel as enabled with the token
  \<^verbatim>\<open>111:aaa\<close>. The administrator switches the channel off, edits the token to
  \<^verbatim>\<open>222:bbb\<close> while the save is under way, and the server refuses the save: the
  handler stores the negation of its new value, which switches the channel on again.
\<close>

definition stored_settings :: settings where
  "stored_settings =
     default_settings\<lparr>telegramEnabled := True, telegramBotToken := ''111:aaa'',
                      telegramChatId := ''-100''\<rparr>"

definition revert_trace :: "settings_event list" where
  "revert_trace =
     [LoadSettingsDone (LoadResponse True stored_settings),
      SelectTab ''telegram'',
      ClickEnableToggle,
      ChangeSetting (TelegramBotToken ''222:bbb''),
      TelegramToggleDone False (PutResponse False)]"

definition revert_enabled :: settings_state where
  "revert_enabled =
     \<lparr>activeTab = ''telegram'', loading = False, telegramTestSuccess = False,
      settings = default_settings\<lparr>telegramEnabled := True, telegramBotToken := ''222:bbb'',
                                    telegramChatId := ''-100''\<rparr>,
      pending = []\<rparr>"

text \<open>
  C8. The first half of the claim holds (\<open>credential_change_effect\<close>). The invariant is
  not preserved by every settings operation: in the first run the only successful test
  posted the token \<^verbatim>\<open>111:aaa\<close> and the channel ends enabled with the token
  \<^verbatim>\<open>222:bbb\<close>; in the second run the channel ends enabled with a token that was
  edited after the stored one, and the run has no successful test at all.
\<close>

theorem credential_edit_races_with_pending_call:
  "settings_run True settings_mounted race_prefix = Some race_ready
   \<and> test_request_body race_ready = (''111:aaa'', ''-100'')
   \<and> settings_run True race_ready race_suffix = Some race_enabled
   \<and> telegramEnabled (settings race_enabled)
   \<and> test_request_body race_enabled = (''222:bbb'', ''-100'')
   \<and> settings_run True settings_mounted revert_trace = Some revert_enabled
   \<and> telegramEnabled (settings revert_enabled)
   \<and> test_request_body revert_enabled = (''222:bbb'', ''-100'')
   \<and> \<not> telegramTestSuccess revert_enabled
   \<and> \<not> list_ex test_delivered revert_trace"
  by (simp add: race_prefix_def race_ready_def race_suffix_def race_enabled_def
        stored_settings_def revert_trace_def revert_enabled_def test_request_body_def
        settings_mounted_def settings_initial_def settings_step_def Settings_def handler_defs
        enable_toggle_disabled_def default_settings_def Let_def)

lemma race_breaks_invariant:
  "credentials_validated (Some (''111:aaa'', ''-100'')) race_ready
   \<and> \<not> credentials_validated (Some (''111:aaa'', ''-100'')) race_enabled
   \<and> \<not> credentials_validated (Some (''111:aaa'', ''-100'')) revert_enabled"
  by (simp add: credentials_validated_def race_ready_def race_enabled_def revert_enabled_def
        default_settings_def)

section \<open>Requests page: status changes sent to the server\<close>

text \<open>
  Of a request the page reads the id, the status and the game name. The two modals hold
  the request they were opened for and the status to be sent.
\<close>

record request =
  rid :: nat
  status :: string
  game_name :: string

record edit_modal =
  edit_isOpen :: bool
  edit_request :: "request option"
  newStatus :: string

record next_status_modal =
  next_isOpen :: bool
  next_request :: "request option"
  nextStatus :: string

text \<open>
  A \<^verbatim>\<open>PATCH\<close> of a request's status, tagged with the handler that sent it:
  \<^verbatim>\<open>updateRequestStatus\<close> (edit modal) or \<^verbatim>\<open>confirmNextStatus\<close>
  (next-status confirmation). While the request is under way the handler waits with the
  id and status it captured.
\<close>

datatype patch_origin = FromEditModal | FromNextStatus

datatype patch_request = PatchRequest patch_origin nat string

record requests_state =
  requests :: "request list"
  editModal :: edit_modal
  nextStatusModal :: next_status_modal
  in_flight :: "patch_request list"

definition requests_initial :: requests_state where
  "requests_initial =
     \<lparr>requests = [],
      editModal = \<lparr>edit_isOpen = False, edit_request = None, newStatus = []\<rparr>,
      nextStatusModal = \<lparr>next_isOpen = False, next_request = None, nextStatus = []\<rparr>,
      in_flight = []\<rparr>"

definition openEditModal :: "request \<Rightarrow> requests_state \<Rightarrow> requests_state" where
  "openEditModal r s =
     s\<lparr>editModal := \<lparr>edit_isOpen = True, edit_request = Some r, newStatus = status r\<rparr>\<rparr>"

definition closeEditModal :: "requests_state \<Rightarrow> requests_state" where
  "closeEditModal s =
     s\<lparr>editModal := \<lparr>edit_isOpen = False, edit_request = None, newStatus = []\<rparr>\<rparr>"

text \<open>The options of the status select in the edit modal.\<close>

definition edit_status_options :: "string list" where
  "edit_status_options = [''pending'', ''approved'', ''rejected'', ''completed'']"

definition selectEditStatus :: "string \<Rightarrow> requests_state \<Rightarrow> requests_state" where
  "selectEditStatus v s = s\<lparr>editModal := (editModal s)\<lparr>newStatus := v\<rparr>\<rparr>"

text \<open>
  \<^verbatim>\<open>updateRequestStatus\<close> up to its \<^verbatim>\<open>await\<close>: the request goes out with
  \<^verbatim>\<open>editModal.newStatus\<close>. Without a request in the modal, reading its id throws
  inside the \<^verbatim>\<open>try\<close> block and nothing is sent.
\<close>

definition updateRequestStatus_begin :: "requests_state \<Rightarrow> requests_state \<times> patch_request list" where
  "updateRequestStatus_begin s =
     (case edit_request (editModal s) of
        None \<Rightarrow> (s, [])
      | Some r \<Rightarrow>
          (let p = PatchRequest FromEditModal (rid r) (newStatus (editModal s))
           in (s\<lparr>in_flight := in_flight s @ [p]\<rparr>, [p])))"

definition set_status :: "nat \<Rightarrow> string \<Rightarrow> request list \<Rightarrow> request list" where
  "set_status i st rs = map (\<lambda>req. if rid req = i then req\<lparr>status := st\<rparr> else req) rs"

definition updateRequestStatus_done ::
  "nat \<Rightarrow> string \<Rightarrow> bool \<Rightarrow> requests_state \<Rightarrow> requests_state" where
  "updateRequestStatus_done i st ok s =
     (if ok then closeEditModal (s\<lparr>requests := set_status i st (requests s)\<rparr>) else s)"

text \<open>
  \<^verbatim>\<open>openNextStatusModal\<close> opens the confirmation only when
  \<^verbatim>\<open>getNextStatus\<close> is not \<^verbatim>\<open>null\<close>.
\<close>

definition openNextStatusModal :: "request \<Rightarrow> requests_state \<Rightarrow> requests_state" where
  "openNextStatusModal r s =
     (case getNextStatus (status r) of
        None \<Rightarrow> s
      | Some n \<Rightarrow>
          s\<lparr>nextStatusModal := \<lparr>next_isOpen = True, next_request = Some r, nextStatus = n\<rparr>\<rparr>)"

definition closeNextStatusModal :: "requests_state \<Rightarrow> requests_state" where
  "closeNextStatusModal s =
     s\<lparr>nextStatusModal := \<lparr>next_isOpen = False, next_request = None, nextStatus = []\<rparr>\<rparr>"

definition confirmNextStatus_begin :: "requests_state \<Rightarrow> requests_state \<times> patch_request list" where
  "confirmNextStatus_begin s =
     (case next_request (nextStatusModal s) of
        None \<Rightarrow> (s, [])
      | Some r \<Rightarrow>
          (let p = PatchRequest FromNextStatus (rid r) (nextStatus (nextStatusModal s))
           in (s\<lparr>in_flight := in_flight s @ [p]\<rparr>, [p])))"

definition confirmNextStatus_done ::
  "nat \<Rightarrow> string \<Rightarrow> bool \<Rightarrow> requests_state \<Rightarrow> requests_state" where
  "confirmNextStatus_done i st ok s =
     (if ok then closeNextStatusModal (s\<lparr>requests := set_status i st (requests s)\<rparr>) else s)"

text \<open>
  Events of the page. The list of requests changes when \<^verbatim>\<open>fetchRequests\<close> or
  \<^verbatim>\<open>confirmDelete\<close> settles. The status buttons of a card are rendered for an
  administrator, the next-status button only while the request is not completed; the
  modal buttons exist while their modal is open. The confirm button of the confirmation
  modal calls \<^verbatim>\<open>onConfirm\<close> and then \<^verbatim>\<open>onCancel\<close>.
\<close>

datatype requests_event =
    RequestsLoaded "request list"
  | RequestsLoadFailed
  | RequestDeleted nat
  | ClickEdit request
  | SelectEditStatus string
  | ClickEditCancel
  | ClickEditSave
  | PatchDone patch_request bool
  | ClickNext request
  | ClickNextCancel
  | ClickNextConfirm

fun requests_step ::
  "bool \<Rightarrow> requests_state \<Rightarrow> requests_event \<Rightarrow> (requests_state \<times> patch_request list) option" where
  "requests_step admin s (RequestsLoaded data) = Some (s\<lparr>requests := data\<rparr>, [])"
| "requests_step admin s RequestsLoadFailed = Some (s\<lparr>requests := []\<rparr>, [])"
| "requests_step admin s (RequestDeleted i) =
     Some (s\<lparr>requests := filter (\<lambda>req. rid req \<noteq> i) (requests s)\<rparr>, [])"
| "requests_step admin s (ClickEdit r) =
     (if admin \<and> r \<in> set (requests s) then Some (openEditModal r s, []) else None)"
| "requests_step admin s (SelectEditStatus v) =
     (if edit_isOpen (editModal s) \<and> v \<in> set edit_status_options
      then Some (selectEditStatus v s, []) else None)"
| "requests_step admin s ClickEditCancel =
     (if edit_isOpen (editModal s) then Some (closeEditModal s, []) else None)"
| "requests_step admin s ClickEditSave =
     (if edit_isOpen (editModal s) then Some (updateRequestStatus_begin s) else None)"
| "requests_step admin s (PatchDone p ok) =
     (if p \<in> set (in_flight s) then
        (case p of
           PatchRequest FromEditModal i st \<Rightarrow>
             Some (updateRequestStatus_done i st ok (s\<lparr>in_flight := remove1 p (in_flight s)\<rparr>), [])
         | PatchRequest FromNextStatus i st \<Rightarrow>
             Some (confirmNextStatus_done i st ok (s\<lparr>in_flight := remove1 p (in_flight s)\<rparr>), []))
      else None)"
| "requests_step admin s (ClickNext r) =
     (if admin \<and> r \<in> set (requests s) \<and> status r \<noteq> ''completed''
      then Some (openNextStatusModal r s, []) else None)"
| "requests_step admin s ClickNextCancel =
     (if next_isOpen (nextStatusModal s) then Some (closeNextStatusModal s, []) else None)"
| "requests_step admin s ClickNextConfirm =
     (if next_isOpen (nextStatusModal s) then
        (case confirmNextStatus_begin s of (s', out) \<Rightarrow> Some (closeNextStatusModal s', out))
      else None)"

text \<open>A run of the page, with every request it sent in order.\<close>

fun requests_run ::
  "bool \<Rightarrow> requests_state \<Rightarrow> requests_event list \<Rightarrow> (requests_state \<times> patch_request list) option" where
  "requests_run admin s [] = Some (s, [])"
| "requests_run admin s (e # es) =
     (case requests_step admin s e of
        None \<Rightarrow> None
      | Some (s', out) \<Rightarrow>
          (case requests_run admin s' es of
             None \<Rightarrow> None
           | Some (t, rest) \<Rightarrow> Some (t, out @ rest)))"

subsection \<open>The next-status path never sends pending; the edit modal can\<close>

definition next_target :: "string \<Rightarrow> bool" where
  "next_target st = (st = ''approved'' \<or> st = ''completed'')"

definition next_modal_ok :: "requests_state \<Rightarrow> bool" where
  "next_modal_ok s =
     (next_isOpen (nextStatusModal s) \<longrightarrow> next_target (nextStatus (nextStatusModal s)))"

fun from_next :: "patch_request \<Rightarrow> bool" where
  "from_next (PatchRequest FromNextStatus i st) = True"
| "from_next p = False"

fun patch_status :: "patch_request \<Rightarrow> string" where
  "patch_status (PatchRequest origin i st) = st"

lemmas requests_defs =
  openEditModal_def closeEditModal_def selectEditStatus_def
  updateRequestStatus_begin_def updateRequestStatus_done_def openNextStatusModal_def
  closeNextStatusModal_def confirmNextStatus_begin_def confirmNextStatus_done_def

lemma getNextStatus_target: "getNextStatus st = Some n \<Longrightarrow> next_target n"
  by (auto simp: getNextStatus_def next_target_def split: if_splits)

lemma next_modal_step:
  "requests_step admin s e = Some (s', out) \<Longrightarrow> next_modal_ok s \<Longrightarrow>
     next_modal_ok s' \<and> (\<forall>p\<in>set out. from_next p \<longrightarrow> next_target (patch_status p))"
proof (cases e)
  case (PatchDone p ok)
  then show "requests_step admin s e = Some (s', out) \<Longrightarrow> next_modal_ok s \<Longrightarrow>
     next_modal_ok s' \<and> (\<forall>p\<in>set out. from_next p \<longrightarrow> next_target (patch_status p))"
    by (cases p) (auto simp: requests_defs next_modal_ok_def split: if_splits patch_origin.splits)
next
  case (ClickNext r)
  then show "requests_step admin s e = Some (s', out) \<Longrightarrow> next_modal_ok s \<Longrightarrow>
     next_modal_ok s' \<and> (\<forall>p\<in>set out. from_next p \<longrightarrow> next_target (patch_status p))"
    by (auto simp: requests_defs next_modal_ok_def split: if_splits option.splits
             dest: getNextStatus_target)
qed (auto simp: requests_defs next_modal_ok_def Let_def split: if_splits option.splits)

lemma next_modal_run:
  "requests_run admin s evs = Some (t, sent) \<Longrightarrow> next_modal_ok s \<Longrightarrow>
     next_modal_ok t \<and> (\<forall>p\<in>set sent. from_next p \<longrightarrow> next_target (patch_status p))"
proof (induction evs arbitrary: s sent)
  case Nil
  then show ?case by simp
next
  case (Cons e es)
  from Cons.prems(1) obtain s' out rest where step: "requests_step admin s e = Some (s', out)"
    and run: "requests_run admin s' es = Some (t, rest)" and sent: "sent = out @ rest"
    by (auto split: option.splits prod.splits)
  from next_modal_step [OF step Cons.prems(2)]
  have s': "next_modal_ok s'"
    and out: "\<forall>p\<in>set out. from_next p \<longrightarrow> next_target (patch_status p)"
    by simp_all
  from Cons.IH [OF run s'] out sent show ?case by auto
qed

lemma requests_initial_ok: "next_modal_ok requests_initial"
  by (simp add: next_modal_ok_def requests_initial_def)

lemma edit_save_sends_selected:
  "requests_step admin s ClickEditSave = Some (s', out) \<Longrightarrow>
     \<forall>p\<in>set out. \<not> from_next p \<and> patch_status p = newStatus (editModal s)"
  by (auto simp: updateRequestStatus_begin_def Let_def split: if_splits option.splits)

lemma edit_select_pending:
  "edit_isOpen (editModal s) \<Longrightarrow>
     requests_step admin s (SelectEditStatus ''pending'') = Some (selectEditStatus ''pending'' s, [])"
  by (simp add: edit_status_options_def)

text \<open>
  C3, as the code has it. Along every run of the Requests page, a status sent by the
  next-status progression (\<^verbatim>\<open>confirmNextStatus\<close>) is approved or completed, never
  pending. The edit-status modal (\<^verbatim>\<open>updateRequestStatus\<close>) sends whatever its
  select holds, and the select offers pending whenever the modal is open.
\<close>

theorem next_status_never_pending:
  "(requests_run admin requests_initial evs = Some (t, sent) \<longrightarrow>
      (\<forall>p\<in>set sent. from_next p \<longrightarrow>
         patch_status p \<noteq> ''pending''
         \<and> (patch_status p = ''approved'' \<or> patch_status p = ''completed'')))
   \<and> (requests_step admin s ClickEditSave = Some (s', out) \<longrightarrow>
        (\<forall>p\<in>set out. \<not> from_next p \<and> patch_status p = newStatus (editModal s)))
   \<and> (edit_isOpen (editModal s) \<longrightarrow>
        requests_step admin s (SelectEditStatus ''pending'')
          = Some (selectEditStatus ''pending'' s, []))"
proof (intro conjI impI)
  assume "requests_run admin requests_initial evs = Some (t, sent)"
  from next_modal_run [OF this requests_initial_ok]
  have "\<forall>p\<in>set sent. from_next p \<longrightarrow> next_target (patch_status p)" by simp
  then show "\<forall>p\<in>set sent. from_next p \<longrightarrow>
         patch_status p \<noteq> ''pending''
         \<and> (patch_status p = ''approved'' \<or> patch_status p = ''completed'')"
    by (auto simp: next_target_def)
next
  assume "requests_step admin s ClickEditSave = Some (s', out)"
  then show "\<forall>p\<in>set out. \<not> from_next p \<and> patch_status p = newStatus (editModal s)"
    by (rule edit_save_sends_selected)
next
  assume "edit_isOpen (editModal s)"
  then show "requests_step admin s (SelectEditStatus ''pending'')
          = Some (selectEditStatus ''pending'' s, [])"
    by (rule edit_select_pending)
qed

definition doom :: request where
  "doom = \<lparr>rid = 7, status = ''approved'', game_name = ''Doom''\<rparr>"

definition quake :: request where
  "quake = \<lparr>rid = 8, status = ''pending'', game_name = ''Quake''\<rparr>"

definition doom_edit_open :: requests_state where
  "doom_edit_open =
     \<lparr>requests = [doom, quake],
      editModal = \<lparr>edit_isOpen = True, edit_request = Some doom, newStatus = ''pending''\<rparr>,
      nextStatusModal = \<lparr>next_isOpen = False, next_request = None, nextStatus = []\<rparr>,
      in_flight = []\<rparr>"

text \<open>
  C3 as stated fails: an administrator opens the edit modal of an approved request,
  selects Pending and saves; the request sent to the server carries the status pending.
\<close>

theorem edit_modal_sends_pending:
  "map_option snd
     (requests_run True requests_initial
        [RequestsLoaded [doom, quake], ClickEdit doom, SelectEditStatus ''pending'', ClickEditSave])
     = Some [PatchRequest FromEditModal 7 ''pending'']
   \<and> status doom = ''approved''"
  by (simp add: requests_initial_def doom_def quake_def requests_defs edit_status_options_def Let_def)

lemma example_next_run:
  "requests_run True requests_initial
     [RequestsLoaded [doom, quake], ClickNext quake, ClickNextConfirm,
      PatchDone (PatchRequest FromNextStatus 8 ''approved'') True]
     = Some (requests_initial\<lparr>requests := [doom, quake\<lparr>status := ''approved''\<rparr>]\<rparr>,
             [PatchRequest FromNextStatus 8 ''approved''])"
  by (simp add: requests_initial_def doom_def quake_def requests_defs getNextStatus_def
        set_status_def Let_def)

lemma example_edit_save:
  "requests_step True doom_edit_open ClickEditSave
     = Some (doom_edit_open\<lparr>in_flight := [PatchRequest FromEditModal 7 ''pending'']\<rparr>,
             [PatchRequest FromEditModal 7 ''pending''])"
  by (simp add: doom_edit_open_def doom_def requests_defs Let_def)

theorem next_status_never_pending_witness:
  "requests_run True requests_initial
     [RequestsLoaded [doom, quake], ClickNext quake, ClickNextConfirm,
      PatchDone (PatchRequest FromNextStatus 8 ''approved'') True]
     = Some (requests_initial\<lparr>requests := [doom, quake\<lparr>status := ''approved''\<rparr>]\<rparr>,
             [PatchRequest FromNextStatus 8 ''approved''])
   \<and> from_next (PatchRequest FromNextStatus 8 ''approved'')
   \<and> patch_status (PatchRequest FromNextStatus 8 ''approved'') \<noteq> ''pending''
   \<and> requests_step True doom_edit_open ClickEditSave
       = Some (doom_edit_open\<lparr>in_flight := [PatchRequest FromEditModal 7 ''pending'']\<rparr>,
               [PatchRequest FromEditModal 7 ''pending''])
   \<and> patch_status (PatchRequest FromEditModal 7 ''pending'')
       = newStatus (editModal doom_edit_open)
   \<and> newStatus (editModal doom_edit_open) = ''pending''
   \<and> edit_isOpen (editModal doom_edit_open)
   \<and> requests_step True doom_edit_open (SelectEditStatus ''pending'')
       = Some (selectEditStatus ''pending'' doom_edit_open, [])"
proof -
  note inst =
    next_status_never_pending
      [of True "[RequestsLoaded [doom, quake], ClickNext quake, ClickNextConfirm,
                 PatchDone (PatchRequest FromNextStatus 8 ''approved'') True]"
          "requests_initial\<lparr>requests := [doom, quake\<lparr>status := ''approved''\<rparr>]\<rparr>"
          "[PatchRequest FromNextStatus 8 ''approved'']"
          doom_edit_open
          "doom_edit_open\<lparr>in_flight := [PatchRequest FromEditModal 7 ''pending'']\<rparr>"
          "[PatchRequest FromEditModal 7 ''pending'']"]
  have c1: "\<forall>p\<in>set [PatchRequest FromNextStatus 8 ''approved'']. from_next p \<longrightarrow>
         patch_status p \<noteq> ''pending''
         \<and> (patch_status p = ''approved'' \<or> patch_status p = ''completed'')"
    using inst [THEN conjunct1] example_next_run by (rule mp)
  have c2: "\<forall>p\<in>set [PatchRequest FromEditModal 7 ''pending''].
         \<not> from_next p \<and> patch_status p = newStatus (editModal doom_edit_open)"
    using inst [THEN conjunct2, THEN conjunct1] example_edit_save by (rule mp)
  have h3: "edit_isOpen (editModal doom_edit_open)"
    by (simp add: doom_edit_open_def)
  have c3: "requests_step True doom_edit_open (SelectEditStatus ''pending'')
       = Some (selectEditStatus ''pending'' doom_edit_open, [])"
    using inst [THEN conjunct2, THEN conjunct2] h3 by (rule mp)
  have d1: "from_next (PatchRequest FromNextStatus 8 ''approved'')" by simp
  from c1 d1 have e1: "patch_status (PatchRequest FromNextStatus 8 ''approved'') \<noteq> ''pending''"
    by simp
  from c2 have e2: "patch_status (PatchRequest FromEditModal 7 ''pending'')
       = newStatus (editModal doom_edit_open)"
    by simp
  have d2: "newStatus (editModal doom_edit_open) = ''pending''"
    by (simp add: doom_edit_open_def)
  from example_next_run d1 e1 example_edit_save e2 d2 h3 c3 show ?thesis by blast
qed

section \<open>Library and Settings pages: the administrator check\<close>

text \<open>
  \<^verbatim>\<open>Library\<close> registers no effect. It returns the redirect for a
  non-administrator before any of its handlers is defined.
\<close>

definition Library :: "bool \<Rightarrow> library_state \<Rightarrow> effect_call list \<times> element" where
  "Library admin s = ([], if \<not> admin then Navigate ''/'' True else Page)"

text \<open>
  What the user can do on the rendered Library page. The import button and the clear
  button are disabled for a blank text and while an import is loading; the smart-import
  form passes the non-blank names of its inputs and needs at least one.
\<close>

datatype library_event =
    SelectMode string
  | EditText string
  | ClickTextImport
  | ClickClearList
  | ImportSelected "string list"
  | ClickCloseResults

fun library_page_step ::
  "(string list \<Rightarrow> import_result promise) \<Rightarrow> library_state \<Rightarrow> library_event
     \<Rightarrow> library_state option" where
  "library_page_step api s (SelectMode m) =
     (if m \<in> set [''bulk'', ''smart''] then Some (s\<lparr>importMode := m\<rparr>) else None)"
| "library_page_step api s (EditText v) =
     (if importMode s = ''bulk'' then Some (s\<lparr>textImportInput := v\<rparr>) else None)"
| "library_page_step api s ClickTextImport =
     (if importMode s = ''bulk''
         \<and> \<not> (trim (textImportInput s) = [] \<or> importStatus s = ''loading'')
      then Some (handleTextImport api s) else None)"
| "library_page_step api s ClickClearList =
     (if importMode s = ''bulk''
         \<and> \<not> (trim (textImportInput s) = [] \<or> importStatus s = ''loading'')
      then Some (s\<lparr>textImportInput := []\<rparr>) else None)"
| "library_page_step api s (ImportSelected gameNames) =
     (if importMode s = ''smart'' \<and> importStatus s \<noteq> ''loading''
         \<and> length gameNames > 0 \<and> list_all (\<lambda>n. length (trim n) > 0) gameNames
      then Some (handleSmartImport api gameNames s) else None)"
| "library_page_step api s ClickCloseResults =
     (if importResults s \<noteq> None \<and> importStatus s = ''success''
      then Some (s\<lparr>importResults := None\<rparr>) else None)"

definition library_step ::
  "(string list \<Rightarrow> import_result promise) \<Rightarrow> bool \<Rightarrow> library_state \<Rightarrow> library_event
     \<Rightarrow> library_state option" where
  "library_step api admin s e =
     (if snd (Library admin s) \<noteq> Page then None else library_page_step api s e)"

definition visitor :: auth_user where
  "visitor = \<lparr>username = ''alice'', role = ''user''\<rparr>"

text \<open>
  The sibling administrator page \<^verbatim>\<open>Users\<close> has the same redirect after its hooks.
  Its mount effect calls \<^verbatim>\<open>fetchUsers\<close>, whose first statement is
  \<^verbatim>\<open>if (!isAdmin) return\<close>: for a non-administrator no request goes out.
\<close>

datatype users_request = GetAdminUsers | GetUserRequestCounts

definition fetchUsers_requests :: "bool \<Rightarrow> users_request list" where
  "fetchUsers_requests admin = (if \<not> admin then [] else [GetAdminUsers, GetUserRequestCounts])"

definition Users :: "bool \<Rightarrow> users_request list \<times> element" where
  "Users admin = (fetchUsers_requests admin, if \<not> admin then Navigate ''/'' True else Page)"

text \<open>
  What holds of the renders. When the authenticated user's role is not admin (or nobody
  is logged in), the Library and the Settings page render the redirect to
  \<^verbatim>\<open>/\<close>; with it on screen no event of the Library page and no user event of the
  Settings page can happen, and the Library page runs no effect.
\<close>

lemma non_admin_views:
  "\<not> isAdmin user \<Longrightarrow>
     snd (Library (isAdmin user) ls) = Navigate ''/'' True
     \<and> snd (Settings (isAdmin user) ss) = Navigate ''/'' True
     \<and> fst (Library (isAdmin user) ls) = []"
  by (simp add: Library_def Settings_def)

lemma non_admin_no_library_event: "\<not> isAdmin user \<Longrightarrow> library_step api (isAdmin user) ls le = None"
  by (simp add: library_step_def Library_def)

lemma non_admin_no_settings_event:
  "\<not> isAdmin user \<Longrightarrow> is_user_event se \<Longrightarrow> settings_step (isAdmin user) ss se = None"
  by (simp add: settings_step_def Settings_def)

lemma isAdmin_role: "isAdmin user \<longleftrightarrow> (\<exists>u. user = Some u \<and> role u = ''admin'')"
  by (cases user) (simp_all add: isAdmin_def)

text \<open>
  C10. For a logged-in user who is not an administrator the Settings page renders the
  redirect, and yet a settings operation is invoked: the mount effect calls
  \<^verbatim>\<open>loadSettings\<close>, which is not guarded by the role, and its request for the
  administrator settings goes out. The Library page invokes nothing, and the Users
  page, written in the same way, guards its mount request.
\<close>

theorem settings_load_runs_for_non_admin:
  "isAdmin (Some visitor) = False
   \<and> snd (Settings (isAdmin (Some visitor)) settings_initial) = Navigate ''/'' True
   \<and> fst (Settings (isAdmin (Some visitor)) settings_initial) = [LoadSettingsEffect]
   \<and> settings_mounted = loadSettings_begin settings_initial
   \<and> pending settings_mounted = [LoadSettingsCall]
   \<and> Library (isAdmin (Some visitor)) library_initial = ([], Navigate ''/'' True)
   \<and> Users (isAdmin (Some visitor)) = ([], Navigate ''/'' True)"
  by (simp add: isAdmin_def visitor_def Settings_def settings_initial_def settings_mounted_def
        loadSettings_begin_def Library_def Users_def fetchUsers_requests_def)

section \<open>Import Orchestrator (server side)\<close>

text \<open>
  Modelled from the spec: the Import Orchestrator \<^verbatim>\<open>importBatch\<close> and the data it
  works on. It runs on the server, whose code is not among the sources; the client only
  posts the names (\<^verbatim>\<open>importGamesFromText\<close>) and shows the answer. The
  definitions of this section follow sections 3, 4.2, 4.3, 6 and 7 of the
  specification. The Name Matcher is a parameter: it resolves a name to a catalog entry
  or fails with one of the error kinds of section 7.
\<close>

datatype match_failure = NoMatch | CatalogUnavailable | RateLimited

record catalog_entry =
  catalog_id :: nat
  display_name :: string
  genre_tags :: string

text \<open>
  Modelled from the spec: a Request of the Request Store, reduced to the fields the
  orchestrator reads and writes (owner, submitted name, catalog id, status).
\<close>

record stored_request =
  owner_id :: nat
  submitted_name :: string
  resolved_catalog_id :: "nat option"
  stored_status :: string

text \<open>
  Modelled from the spec: the entries of a batch result, an imported entry with the
  original name, the resolved name, the catalog id and derived metadata, and a failed
  entry with the original name and the reason.
\<close>

record imported_entry =
  entry_original_name :: string
  entry_resolved_name :: string
  entry_catalog_id :: nat
  entry_genres :: string

record failed_entry =
  entry_failed_name :: string
  entry_reason :: string

datatype item_outcome = Imported imported_entry | Failed failed_entry

text \<open>
  Modelled from the spec: the duplicate check of section 4.3, an existing active or
  completed request of the owner for the catalog id.
\<close>

definition already_requested :: "nat \<Rightarrow> nat \<Rightarrow> stored_request list \<Rightarrow> bool" where
  "already_requested owner cid store =
     list_ex (\<lambda>r. owner_id r = owner \<and> resolved_catalog_id r = Some cid
                  \<and> stored_status r \<in> set [''pending'', ''approved'', ''completed'']) store"

text \<open>Modelled from the spec: the reason string recorded for a failed resolution.\<close>

fun failure_text :: "match_failure \<Rightarrow> string" where
  "failure_text NoMatch = ''NoMatch''"
| "failure_text CatalogUnavailable = ''CatalogUnavailable''"
| "failure_text RateLimited = ''RateLimited''"

text \<open>
  Modelled from the spec: one item of section 4.3. A failed resolution is recorded with
  its reason; a resolved name that the owner already holds is recorded as a duplicate;
  otherwise a request is created with status completed and the item is recorded as
  imported.
\<close>

definition import_item ::
  "(string \<Rightarrow> match_failure + catalog_entry) \<Rightarrow> nat \<Rightarrow> stored_request list \<Rightarrow> string
     \<Rightarrow> stored_request list \<times> item_outcome" where
  "import_item resolve owner store nm =
     (case resolve (trim nm) of
        Inl failure \<Rightarrow>
          (store, Failed \<lparr>entry_failed_name = nm, entry_reason = failure_text failure\<rparr>)
      | Inr entry \<Rightarrow>
          if already_requested owner (catalog_id entry) store then
            (store, Failed \<lparr>entry_failed_name = nm,
                            entry_reason = ''already in library/already requested''\<rparr>)
          else
            (store @ [\<lparr>owner_id = owner, submitted_name = nm,
                        resolved_catalog_id = Some (catalog_id entry),
                        stored_status = ''completed''\<rparr>],
             Imported \<lparr>entry_original_name = nm, entry_resolved_name = display_name entry,
                       entry_catalog_id = catalog_id entry, entry_genres = genre_tags entry\<rparr>))"

text \<open>
  Modelled from the spec: the batch loop. Every name is processed, whatever happened to
  the names before it; the outcomes are kept in input order. (The worker pool of
  section 5 is modelled by its sequential order of commits to the store.)
\<close>

fun import_items ::
  "(string \<Rightarrow> match_failure + catalog_entry) \<Rightarrow> nat \<Rightarrow> stored_request list \<Rightarrow> string list
     \<Rightarrow> stored_request list \<times> item_outcome list" where
  "import_items resolve owner store [] = (store, [])"
| "import_items resolve owner store (nm # nms) =
     (case import_item resolve owner store nm of
        (store', outcome) \<Rightarrow>
          (case import_items resolve owner store' nms of
             (store'', outcomes) \<Rightarrow> (store'', outcome # outcomes)))"

text \<open>Modelled from the spec: the batch result of sections 3 and 6.\<close>

record batch_result =
  batch_total :: nat
  batch_successful :: nat
  batch_failed_count :: nat
  imported :: "imported_entry list"
  failed :: "failed_entry list"

fun imported_of :: "item_outcome list \<Rightarrow> imported_entry list" where
  "imported_of [] = []"
| "imported_of (Imported e # os) = e # imported_of os"
| "imported_of (Failed f # os) = imported_of os"

fun failed_of :: "item_outcome list \<Rightarrow> failed_entry list" where
  "failed_of [] = []"
| "failed_of (Imported e # os) = failed_of os"
| "failed_of (Failed f # os) = f # failed_of os"

fun outcome_name :: "item_outcome \<Rightarrow> string" where
  "outcome_name (Imported e) = entry_original_name e"
| "outcome_name (Failed f) = entry_failed_name f"

text \<open>Modelled from the spec: \<^verbatim>\<open>importBatch(names, ownerId)\<close>.\<close>

definition importBatch ::
  "(string \<Rightarrow> match_failure + catalog_entry) \<Rightarrow> stored_request list \<Rightarrow> string list \<Rightarrow> nat
     \<Rightarrow> batch_result" where
  "importBatch resolve store names owner =
     (let outcomes = snd (import_items resolve owner store names)
      in \<lparr>batch_total = length names,
          batch_successful = length (imported_of outcomes),
          batch_failed_count = length (failed_of outcomes),
          imported = imported_of outcomes,
          failed = failed_of outcomes\<rparr>)"

lemma outcome_counts: "length (imported_of os) + length (failed_of os) = length os"
  by (induction os rule: imported_of.induct) simp_all

lemma import_item_name: "outcome_name (snd (import_item resolve owner store nm)) = nm"
  by (simp add: import_item_def split: sum.splits)

lemma import_items_names:
  "map outcome_name (snd (import_items resolve owner store names)) = names"
proof (induction names arbitrary: store)
  case Nil
  then show ?case by simp
next
  case (Cons nm nms)
  obtain store' outcome where item: "import_item resolve owner store nm = (store', outcome)"
    by (cases "import_item resolve owner store nm")
  obtain store'' outcomes where rest: "import_items resolve owner store' nms = (store'', outcomes)"
    by (cases "import_items resolve owner store' nms")
  from import_item_name [of resolve owner store nm] item have "outcome_name outcome = nm"
    by simp
  moreover from Cons.IH [of store'] rest have "map outcome_name outcomes = nms"
    by simp
  ultimately show ?case using item rest by simp
qed

lemma import_items_length:
  "length (snd (import_items resolve owner store names)) = length names"
  using import_items_names [of resolve owner store names] by (metis length_map)

lemma import_items_append:
  "import_items resolve owner store (xs @ ys) =
     (fst (import_items resolve owner (fst (import_items resolve owner store xs)) ys),
      snd (import_items resolve owner store xs)
        @ snd (import_items resolve owner (fst (import_items resolve owner store xs)) ys))"
proof (induction xs arbitrary: store)
  case Nil
  then show ?case by simp
next
  case (Cons x xs)
  obtain store' outcome where item: "import_item resolve owner store x = (store', outcome)"
    by (cases "import_item resolve owner store x")
  from Cons.IH [of store'] item show ?case
    by (simp split: prod.splits)
qed

text \<open>
  C6. For every batch, the imported entries and the failed entries together are as
  many as the submitted names, and so are the counts of the result. No item failure
  stops the batch: every submitted name has exactly one outcome, in input order, and
  the names after any prefix of the batch are processed in full, starting from the
  store the prefix left behind.
\<close>

theorem import_batch_accounts_for_every_name:
  "length (imported (importBatch resolve store names owner))
     + length (failed (importBatch resolve store names owner)) = length names
   \<and> batch_successful (importBatch resolve store names owner)
       + batch_failed_count (importBatch resolve store names owner)
       = batch_total (importBatch resolve store names owner)
   \<and> batch_total (importBatch resolve store names owner) = length names
   \<and> map outcome_name (snd (import_items resolve owner store names)) = names
   \<and> length (snd (import_items resolve owner
                     (fst (import_items resolve owner store before)) rest)) = length rest
   \<and> snd (import_items resolve owner store (before @ rest))
       = snd (import_items resolve owner store before)
         @ snd (import_items resolve owner (fst (import_items resolve owner store before)) rest)"
proof -
  have counts: "length (imported_of (snd (import_items resolve owner store names)))
      + length (failed_of (snd (import_items resolve owner store names))) = length names"
    using outcome_counts [of "snd (import_items resolve owner store names)"]
          import_items_length [of resolve owner store names]
    by simp
  have "snd (import_items resolve owner store (before @ rest))
       = snd (import_items resolve owner store before)
         @ snd (import_items resolve owner (fst (import_items resolve owner store before)) rest)"
    by (simp add: import_items_append)
  with counts import_items_names [of resolve owner store names]
       import_items_length [of resolve owner "fst (import_items resolve owner store before)" rest]
  show ?thesis
    by (simp add: importBatch_def Let_def)
qed

definition example_resolver :: "string \<Rightarrow> match_failure + catalog_entry" where
  "example_resolver nm =
     (if nm = ''Half-Life 2''
      then Inr \<lparr>catalog_id = 220, display_name = ''Half-Life 2'', genre_tags = ''Shooter''\<rparr>
      else Inl NoMatch)"

definition example_names :: "string list" where
  "example_names = [''Half-Life 2'', ''Not A Real Game XYZ123'', ''Half-Life 2'']"

lemma example_batch:
  "importBatch example_resolver [] example_names 5 =
     \<lparr>batch_total = 3, batch_successful = 1, batch_failed_count = 2,
      imported = [\<lparr>entry_original_name = ''Half-Life 2'', entry_resolved_name = ''Half-Life 2'',
                   entry_catalog_id = 220, entry_genres = ''Shooter''\<rparr>],
      failed = [\<lparr>entry_failed_name = ''Not A Real Game XYZ123'', entry_reason = ''NoMatch''\<rparr>,
                \<lparr>entry_failed_name = ''Half-Life 2'',
                   entry_reason = ''already in library/already requested''\<rparr>]\<rparr>"
  by (simp add: importBatch_def example_names_def example_resolver_def import_item_def
        already_requested_def trim_def js_whitespace_def Let_def)

theorem import_batch_accounts_for_every_name_witness:
  "length (imported (importBatch example_resolver [] example_names 5))
     + length (failed (importBatch example_resolver [] example_names 5)) = 3
   \<and> length (imported (importBatch example_resolver [] example_names 5)) = 1
   \<and> length (failed (importBatch example_resolver [] example_names 5)) = 2
   \<and> length example_names = 3
   \<and> map outcome_name (snd (import_items example_resolver 5 [] example_names)) = example_names"
proof -
  note inst = import_batch_accounts_for_every_name
                [of example_resolver "[]" example_names 5 "[]" example_names]
  have n: "length example_names = 3" by (simp add: example_names_def)
  from inst n have "length (imported (importBatch example_resolver [] example_names 5))
     + length (failed (importBatch example_resolver [] example_names 5)) = 3"
    by simp
  moreover from inst
  have "map outcome_name (snd (import_items example_resolver 5 [] example_names)) = example_names"
    by blast
  moreover have "length (imported (importBatch example_resolver [] example_names 5)) = 1"
    and "length (failed (importBatch example_resolver [] example_names 5)) = 2"
    by (simp_all add: example_batch)
  ultimately show ?thesis using n by blast
qed

end
